theory Spec2Isabelle
  imports Main
begin

section \<open>Values, options and implementation classes\<close>

text \<open>
  The library \<^verbatim>\<open>lib/core-transaction.js\<close> coordinates nested transactions over
  promise chains. The embedding is sequential: a promise is represented by the way it has
  settled, and user code is a state transformer that says how the value it returned has
  settled and what it did to the transactions before that. Work that user code starts and
  does not wait for is a transaction that exists and has not reached its commit or
  rollback.

  An implementation class extends \<^verbatim>\<open>Transaction\<close> and hands six hooks to the base
  constructor. A hook is opaque code of the caller; what the library can observe of one
  call is whether it returned a value that is not a thenable (as \<^verbatim>\<open>_.noop\<close> does),
  threw synchronously, returned a future that rejects, or returned a future that is
  fulfilled. The library chains \<^verbatim>\<open>onCommit\<close> and \<^verbatim>\<open>onRollback\<close> on the hook's future:
  after \<open>Returns\<close> they run in the next microtask, before anything chained on the
  transaction's own promise; after \<open>Fulfils\<close> they run at some later time, which the
  model leaves to a step of its own (\<open>commit_hook_fulfilled\<close>,
  \<open>rollback_hook_fulfilled\<close>); after \<open>Rejects\<close> they never run. The error of a failing
  hook is \<^verbatim>\<open>new Error(m)\<close> for the message \<open>m\<close> given.
\<close>

datatype hook = Returns | Throws string | Rejects string | Fulfils

text \<open>
  An \<^verbatim>\<open>onCommit\<close> or \<^verbatim>\<open>onRollback\<close> option callback. The library calls it with the
  \<^verbatim>\<open>Transaction\<close> object as \<^verbatim>\<open>this\<close> (and \<^verbatim>\<open>onCommit\<close> also with it as second
  argument), from which the callback reaches the transaction, its ancestors and their
  \<^verbatim>\<open>rollback\<close> method. It returns, throws or returns a future that rejects;
  \<open>CbRollsBack ts f\<close> first calls \<^verbatim>\<open>rollback()\<close> on each of the transactions \<open>ts\<close>,
  catching what that throws, and goes on as \<open>f\<close>. Other writes of a callback to the
  library's objects are not represented.
\<close>

datatype callback_fn =
    CbReturns
  | CbThrows string
  | CbRejects string
  | CbRollsBack "nat list" callback_fn

text \<open>
  An implementation class: its six hooks, the methods it adds, and the number of
  arguments that reach the base constructor when the library instantiates the class with
  \<^verbatim>\<open>new Impl(parentTransaction, innerOptions)\<close>: three in a class written as the
  README prescribes (the parent, the hooks and the options object it received), two when
  the class is the base class itself. An \<^verbatim>\<open>implementationClass\<close> option that is not
  a class, and a constructor that fails on grounds of its own, are not represented.
\<close>

record impl_class =
  cls_name :: string
  cls_methods :: "string list"
  cls_constructor_arguments :: nat
  cls_processBegin :: hook
  cls_processCommit :: hook
  cls_processRollback :: hook
  cls_processInnerBegin :: hook
  cls_processInnerCommit :: hook
  cls_processInnerRollback :: hook

text \<open>
  An options object, by the keys the library reads: \<^verbatim>\<open>name\<close>, \<^verbatim>\<open>onCommit\<close>,
  \<^verbatim>\<open>onRollback\<close>, \<^verbatim>\<open>implementationClass\<close> and \<^verbatim>\<open>DefaultImplementationClass\<close>.
  For the first four \<open>None\<close> is an absent or falsy value. \<^verbatim>\<open>_.assign\<close> copies own keys
  whatever their value, so for \<^verbatim>\<open>DefaultImplementationClass\<close>, the one key that is
  written over a key of the target, \<open>None\<close> is an absent key, \<open>Some None\<close> a key that is
  present with a falsy value, and \<open>Some (Some c)\<close> the class \<open>c\<close>.
\<close>

record options =
  opt_name :: "string option"
  opt_onCommit :: "callback_fn option"
  opt_onRollback :: "callback_fn option"
  opt_implementationClass :: "impl_class option"
  opt_DefaultImplementationClass :: "impl_class option option"

text \<open>
  JavaScript values that reach the library as arguments, results and errors.
  \<open>Handler i\<close> is the \<^verbatim>\<open>TransactionHandler\<close> of the transaction with id \<open>i\<close>;
  \<open>Obj u\<close> is an options object; \<open>JsError m\<close> is \<^verbatim>\<open>new Error(m)\<close>;
  \<open>ModuleValue x\<close> is the function or class the module declares under the name \<open>x\<close>.
\<close>

datatype jsval =
    Undefined
  | Null
  | Bool bool
  | Num int
  | Str string
  | JsError string
  | JsTypeError string
  | JsReferenceError string
  | Handler nat
  | Obj options
  | ModuleValue string

fun truthy :: "jsval \<Rightarrow> bool" where
  "truthy Undefined = False"
| "truthy Null = False"
| "truthy (Bool b) = b"
| "truthy (Num n) = (n \<noteq> 0)"
| "truthy (Str s) = (s \<noteq> [])"
| "truthy (JsError m) = True"
| "truthy (JsTypeError m) = True"
| "truthy (JsReferenceError m) = True"
| "truthy (Handler i) = True"
| "truthy (Obj u) = True"
| "truthy (ModuleValue x) = True"

text \<open>\<^verbatim>\<open>v instanceof TransactionHandler\<close>\<close>

fun instanceof_TransactionHandler :: "jsval \<Rightarrow> bool" where
  "instanceof_TransactionHandler (Handler i) = True"
| "instanceof_TransactionHandler v = False"

text \<open>
  The keys the library reads of a value passed as options; a value that is not an
  options object has none of them.
\<close>

fun as_options :: "jsval \<Rightarrow> options" where
  "as_options (Obj u) = u"
| "as_options v =
     \<lparr>opt_name = None, opt_onCommit = None, opt_onRollback = None,
      opt_implementationClass = None, opt_DefaultImplementationClass = None\<rparr>"

text \<open>
  \<^verbatim>\<open>_.assign({DefaultImplementationClass: d}, o)\<close>: the own keys of \<open>o\<close> written over
  the one-key object, so that a \<^verbatim>\<open>DefaultImplementationClass\<close> key of \<open>o\<close> itself
  replaces \<open>d\<close>.
\<close>

definition assign :: "impl_class option \<Rightarrow> jsval \<Rightarrow> options" where
  "assign d v =
     (as_options v)\<lparr>opt_DefaultImplementationClass :=
        (case opt_DefaultImplementationClass (as_options v) of
           None \<Rightarrow> Some d
         | Some own \<Rightarrow> Some own)\<rparr>"

section \<open>Transactions and the process-wide state\<close>

datatype status = Running | Committed | Rolledback

text \<open>
  An entry of \<^verbatim>\<open>innerCommitStack\<close> is the closure \<^verbatim>\<open>() => callback(result)\<close> of one
  transaction: it holds that transaction and the result it committed with.
\<close>

datatype closure = CommitCallback nat jsval

record impl =
  impl_processBegin :: hook
  impl_processCommit :: hook
  impl_processRollback :: hook
  impl_parentTransaction :: "nat option"

record handler_obj =
  h_id :: nat
  h_parent :: "nat option"
  h_methods :: "string list"

text \<open>
  A \<^verbatim>\<open>Transaction\<close> object. Objects are referred to by their id (the constructor draws
  it from the counter \<^verbatim>\<open>transactionId++\<close>, so it is the object's address in \<open>objs\<close>);
  \<open>cls\<close> is the class the object was instantiated from.
\<close>

record transaction =
  innerTransactions :: "nat list"
  innerCommitStack :: "closure list"
  status :: status
  options :: options
  id' :: nat
  parentTransaction :: "nat option"
  level :: nat
  impl :: impl
  name :: string
  display :: string
  handler :: "handler_obj option"
  cls :: impl_class

datatype hook_slot = BeginHook | CommitHook | RollbackHook

datatype event =
    LogInfo string
  | LogWarn string
  | LogError string
  | LogTrace string
  | HookCalled nat hook_slot
  | OnCommitCalled nat jsval
  | OnRollbackCalled nat

text \<open>
  The module's variables: the counter \<^verbatim>\<open>transactionId\<close>, the registry
  \<^verbatim>\<open>transactions\<close> (its keys; the value under a key is the object of that id), the
  default class (\<^verbatim>\<open>setTransactionImplementationClass\<close> overwrites it), the objects,
  and what the logger and the user's hooks and callbacks have been called with, oldest first.
\<close>

record state =
  transactionId :: nat
  transactions :: "nat set"
  DefaultTransactionImplementationClass :: impl_class
  objs :: "nat \<Rightarrow> transaction"
  events :: "event list"

definition upd :: "state \<Rightarrow> nat \<Rightarrow> (transaction \<Rightarrow> transaction) \<Rightarrow> state" where
  "upd st i f = st\<lparr>objs := (objs st)(i := f (objs st i))\<rparr>"

definition emit :: "state \<Rightarrow> event \<Rightarrow> state" where
  "emit st e = st\<lparr>events := events st @ [e]\<rparr>"

text \<open>The decimal digit of a number below ten.\<close>

definition digit_char :: "nat \<Rightarrow> char" where
  "digit_char n = ''0123456789'' ! (n mod 10)"

fun string_of_nat :: "nat \<Rightarrow> string" where
  "string_of_nat n =
     (if n < 10 then [digit_char n] else string_of_nat (n div 10) @ [digit_char (n mod 10)])"

declare string_of_nat.simps [simp del]

definition formatName :: "string \<Rightarrow> string" where
  "formatName composed = ''System Trans ['' @ composed @ '']''"

text \<open>\<^verbatim>\<open>name || dflt\<close> on an optional string: the empty string is falsy too.\<close>

fun name_or :: "string option \<Rightarrow> string \<Rightarrow> string" where
  "name_or None dflt = dflt"
| "name_or (Some n) dflt = (if n = [] then dflt else n)"

definition constructInnerTransaction ::
  "state \<Rightarrow> nat \<Rightarrow> nat \<Rightarrow> string option \<Rightarrow> hook \<Rightarrow> hook \<Rightarrow> hook \<Rightarrow> state" where
  "constructInnerTransaction st this parent nm pBegin pCommit pRollback =
     (let st1 = upd st this (\<lambda>t. t\<lparr>parentTransaction := Some parent\<rparr>);
          st2 = upd st1 this (\<lambda>t. t\<lparr>level := level (objs st1 parent) + 1\<rparr>);
          st3 = upd st2 this (\<lambda>t. t\<lparr>impl :=
                  \<lparr>impl_processBegin = pBegin, impl_processCommit = pCommit,
                   impl_processRollback = pRollback, impl_parentTransaction = Some parent\<rparr>\<rparr>);
          st4 = upd st3 parent (\<lambda>t. t\<lparr>innerTransactions := innerTransactions t @ [this]\<rparr>);
          st5 = upd st4 this (\<lambda>t. t\<lparr>name :=
                  name (objs st4 parent) @ ''/'' @
                  name_or nm (''Level '' @ string_of_nat (level (objs st4 this)))\<rparr>)
      in upd st5 this (\<lambda>t. t\<lparr>display := formatName (name t)\<rparr>))"

definition constructMainTransaction ::
  "state \<Rightarrow> nat \<Rightarrow> string option \<Rightarrow> hook \<Rightarrow> hook \<Rightarrow> hook \<Rightarrow> state" where
  "constructMainTransaction st this nm pBegin pCommit pRollback =
     (let st1 = upd st this (\<lambda>t. t\<lparr>level := 0\<rparr>);
          st2 = upd st1 this (\<lambda>t. t\<lparr>impl :=
                  \<lparr>impl_processBegin = pBegin, impl_processCommit = pCommit,
                   impl_processRollback = pRollback, impl_parentTransaction = None\<rparr>\<rparr>);
          st3 = upd st2 this (\<lambda>t. t\<lparr>name :=
                  name_or nm ''id'' @ '' #'' @ string_of_nat (id' t)\<rparr>)
      in upd st3 this (\<lambda>t. t\<lparr>display := formatName (name t)\<rparr>))"

text \<open>
  \<^verbatim>\<open>new Impl(parentTransaction, options)\<close>: the constructor of the class calls the
  base constructor, which throws unless it receives three arguments (the options it
  receives are the object \<^verbatim>\<open>_.assign\<close> built). It then assigns
  \<^verbatim>\<open>innerTransactions\<close>, \<^verbatim>\<open>innerCommitStack\<close>, \<^verbatim>\<open>status\<close>, \<^verbatim>\<open>options\<close> and
  \<^verbatim>\<open>id\<close> (drawing the id from the counter) and calls one of the two functions above.
  A new object has no \<^verbatim>\<open>parentTransaction\<close> and no \<^verbatim>\<open>handler\<close>; the fields that
  only the two functions above assign (\<^verbatim>\<open>level\<close>, \<^verbatim>\<open>impl\<close>, \<^verbatim>\<open>name\<close>,
  \<^verbatim>\<open>display\<close>) hold until then whatever the store has at that address, which the code
  never reads.
\<close>

definition new_Transaction ::
  "state \<Rightarrow> nat option \<Rightarrow> impl_class \<Rightarrow> options \<Rightarrow> (jsval + nat) \<times> state" where
  "new_Transaction st parent c opts =
     (if cls_constructor_arguments c \<noteq> 3 then
        (Inl (JsError ''Missing constructor parameters in your transaction implementation''),
         st)
      else
        (let this = transactionId st;
             st1 = st\<lparr>transactionId := transactionId st + 1,
                      objs := (objs st)(this :=
                        (objs st this)\<lparr>innerTransactions := [], innerCommitStack := [],
                          status := Running, options := opts, id' := this,
                          parentTransaction := None, handler := None, cls := c\<rparr>)\<rparr>
         in case parent of
              Some p \<Rightarrow> (Inr this, constructInnerTransaction st1 this p (opt_name opts)
                           (cls_processInnerBegin c) (cls_processInnerCommit c)
                           (cls_processInnerRollback c))
            | None \<Rightarrow> (Inr this, constructMainTransaction st1 this (opt_name opts)
                           (cls_processBegin c) (cls_processCommit c)
                           (cls_processRollback c))))"

section \<open>The coordinator\<close>

text \<open>
  \<^verbatim>\<open>innerOptions.implementationClass || innerOptions.DefaultImplementationClass ||
  DefaultTransactionImplementationClass\<close>
\<close>

definition Impl_of :: "state \<Rightarrow> options \<Rightarrow> impl_class" where
  "Impl_of st innerOptions =
     (case opt_implementationClass innerOptions of
        Some c \<Rightarrow> c
      | None \<Rightarrow> (case opt_DefaultImplementationClass innerOptions of
                   Some (Some c) \<Rightarrow> c
                 | _ \<Rightarrow> DefaultTransactionImplementationClass st))"

text \<open>
  \<^verbatim>\<open>createTransaction\<close>. The thenable it returns is represented by the id of the new
  transaction (see \<open>thenable_execute\<close>); an error thrown by the constructor is \<open>Inl\<close>.
\<close>

definition createTransaction ::
  "state \<Rightarrow> nat option \<Rightarrow> options \<Rightarrow> (jsval + nat) \<times> state" where
  "createTransaction st parentTransaction' innerOptions =
     (case new_Transaction st parentTransaction' (Impl_of st innerOptions) innerOptions of
        (Inl e, st1) \<Rightarrow> (Inl e, st1)
      | (Inr this, st1) \<Rightarrow> (Inr this, st1\<lparr>transactions := insert this (transactions st1)\<rparr>))"

text \<open>
  \<^verbatim>\<open>startInner(innerOptions)\<close>: the one-key object holds the value of
  \<^verbatim>\<open>this.options.DefaultImplementationClass\<close>, \<^verbatim>\<open>undefined\<close> when that key is absent.
\<close>

definition startInner :: "state \<Rightarrow> nat \<Rightarrow> jsval \<Rightarrow> (jsval + nat) \<times> state" where
  "startInner st this innerOptions =
     createTransaction st (Some this)
       (assign (case opt_DefaultImplementationClass (options (objs st this)) of
                  None \<Rightarrow> None
                | Some own \<Rightarrow> own)
          innerOptions)"

text \<open>The \<open>k\<close>-th actual argument of a call; a missing one reads \<^verbatim>\<open>undefined\<close>.\<close>

definition arg_at :: "jsval list \<Rightarrow> nat \<Rightarrow> jsval" where
  "arg_at args k = (if k < length args then args ! k else Undefined)"

text \<open>\<^verbatim>\<open>transactions[handler.id]\<close>: the registered object, or \<^verbatim>\<open>undefined\<close>.\<close>

definition registry_lookup :: "state \<Rightarrow> jsval \<Rightarrow> nat option" where
  "registry_lookup st h =
     (case h of Handler i \<Rightarrow> (if i \<in> transactions st then Some i else None) | _ \<Rightarrow> None)"

text \<open>
  \<^verbatim>\<open>defineTransaction(requirement, parentTransactionHandler, options)\<close>, applied to
  the list of its actual arguments (\<^verbatim>\<open>arguments.length\<close> is read in the \<^verbatim>\<open>'NEW'\<close> case).
  The local \<^verbatim>\<open>parentTransaction\<close> is assigned in the \<^verbatim>\<open>'REUSE'\<close> case only. A thrown
  error is \<open>Inl\<close>, also the one the constructor of the implementation class throws.
\<close>

definition defineTransaction :: "state \<Rightarrow> jsval list \<Rightarrow> (jsval + nat) \<times> state" where
  "defineTransaction st arguments =
     (let requirement = arg_at arguments 0;
          parentTransactionHandler = arg_at arguments 1;
          options' = arg_at arguments 2;
          finish = (\<lambda>parentTransaction' opts.
            createTransaction st parentTransaction'
              (assign (Some (DefaultTransactionImplementationClass st)) opts))
      in if requirement = Str ''REUSE'' then
           (if \<not> truthy parentTransactionHandler then
              (Inl (JsError ''PARENT_TRANSACTION_NOT_PROVIDED''), st)
            else if \<not> instanceof_TransactionHandler parentTransactionHandler then
              (Inl (JsError ''PARENT_TRANSACTION_NOT_PROVIDED''), st)
            else finish (registry_lookup st parentTransactionHandler) options')
         else if requirement = Str ''NEW'' then
           (if instanceof_TransactionHandler parentTransactionHandler then
              (Inl (JsError ''PARENT_TRANSACTION_MAY_NOT_BE_PROVIDED''), st)
            else finish None
                   (if length arguments = 2 then parentTransactionHandler else options'))
         else if requirement = Str ''REUSE_OR_NEW'' then
           finish None options'
         else (Inl (JsError ''TRANSACTION_REQUIREMENT_UNKNOWN''), st))"

definition startTransaction :: "state \<Rightarrow> jsval list \<Rightarrow> (jsval + nat) \<times> state" where
  "startTransaction st arguments = defineTransaction st [Str ''NEW'', arg_at arguments 0]"

text \<open>
  Identifier resolution in a function body: the function's own parameters first, then the
  module's top-level declarations; a name bound in neither is a \<^verbatim>\<open>ReferenceError\<close>
  (the file is in strict mode and declares no global of its own).
\<close>

definition module_scope :: "string list" where
  "module_scope =
     [''Promise'', ''_'', ''zlog'', ''logger'', ''transactionId'', ''transactions'',
      ''TransactionHandler'', ''getInstanceMethods'', ''Transaction'',
      ''constructInnerTransaction'', ''constructMainTransaction'', ''formatName'',
      ''DefaultTransactionImplementationClass'', ''defineTransaction'', ''createTransaction'',
      ''startTransaction'', ''reUseOrCreateTransaction'', ''getCoreTransactionClass'',
      ''setTransactionImplementationClass'']"

definition resolve_identifier :: "(string \<times> jsval) list \<Rightarrow> string \<Rightarrow> jsval + jsval" where
  "resolve_identifier params x =
     (case map_of params x of
        Some v \<Rightarrow> Inr v
      | None \<Rightarrow> (if x \<in> set module_scope then Inr (ModuleValue x)
                 else Inl (JsReferenceError (x @ '' is not defined''))))"

text \<open>
  \<^verbatim>\<open>function reUseOrCreateTransaction() { return defineTransaction('REUSE_OR_NEW',
  parentTransaction, options); }\<close>: the function declares no parameter, so the actual
  arguments bind no name, and the argument expressions are evaluated left to right.
\<close>

definition reUseOrCreateTransaction :: "state \<Rightarrow> jsval list \<Rightarrow> (jsval + nat) \<times> state" where
  "reUseOrCreateTransaction st arguments =
     (let params = [] :: (string \<times> jsval) list
      in case resolve_identifier params ''parentTransaction'' of
           Inl e \<Rightarrow> (Inl e, st)
         | Inr p \<Rightarrow> (case resolve_identifier params ''options'' of
                      Inl e \<Rightarrow> (Inl e, st)
                    | Inr opts \<Rightarrow> defineTransaction st [Str ''REUSE_OR_NEW'', p, opts]))"

definition setTransactionImplementationClass :: "state \<Rightarrow> impl_class \<Rightarrow> state" where
  "setTransactionImplementationClass st implClass =
     st\<lparr>DefaultTransactionImplementationClass := implClass\<rparr>"

section \<open>The state machine: \<^verbatim>\<open>execute\<close>\<close>

text \<open>
  A promise, by the way it has settled. What user code (\<^verbatim>\<open>processFn\<close>) did when it was
  called: it threw, it returned a value that is no thenable, or it returned a promise.
\<close>

datatype promise = Resolved jsval | Rejected jsval

datatype fn_result = Threw jsval | Returned jsval | ReturnedPromise promise

text \<open>
  User code is called with the handler of the transaction; the handler's methods are
  bound to that transaction, so the model passes the transaction itself, and
  \<open>Handler (id' t)\<close> is the value user code can pass on as a parent handle.
\<close>

type_synonym process_fn = "nat \<Rightarrow> state \<Rightarrow> fn_result \<times> state"

text \<open>\<^verbatim>\<open>rollback(err)\<close> always throws; the pair is the thrown value and the state.\<close>

definition rollback :: "state \<Rightarrow> nat \<Rightarrow> jsval \<Rightarrow> jsval \<times> state" where
  "rollback st this err =
     (let st1 = upd st this (\<lambda>t. t\<lparr>status := Rolledback\<rparr>)
      in (if truthy err then err else JsError ''ROLL_BACK'', st1))"

definition processBegin :: "state \<Rightarrow> nat \<Rightarrow> promise \<times> state" where
  "processBegin st this =
     (let st1 = emit st (LogInfo (display (objs st this) @ '' - Begin.''));
          st2 = emit st1 (HookCalled this BeginHook)
      in case impl_processBegin (impl (objs st2 this)) of
           Returns \<Rightarrow> (Resolved Undefined, st2)
         | Throws e \<Rightarrow> (Rejected (JsError e), st2)
         | Rejects e \<Rightarrow> (Rejected (JsError e), st2)
         | Fulfils \<Rightarrow> (Resolved Undefined, st2))"

text \<open>\<^verbatim>\<open>new TransactionHandler(thisTransaction)\<close>\<close>

definition new_TransactionHandler :: "state \<Rightarrow> nat \<Rightarrow> handler_obj" where
  "new_TransactionHandler st this =
     \<lparr>h_id = id' (objs st this),
      h_parent = (case parentTransaction (objs st this) of
                    Some p \<Rightarrow> map_option h_id (handler (objs st p))
                  | None \<Rightarrow> None),
      h_methods = cls_methods (cls (objs st this))\<rparr>"

text \<open>\<^verbatim>\<open>thisTransaction.handler = new TransactionHandler(thisTransaction)\<close>\<close>

definition with_handler :: "state \<Rightarrow> nat \<Rightarrow> state" where
  "with_handler st this =
     upd st this (\<lambda>t. t\<lparr>handler := Some (new_TransactionHandler st this)\<rparr>)"

definition processExecution :: "state \<Rightarrow> nat \<Rightarrow> process_fn \<Rightarrow> promise \<times> state" where
  "processExecution st this processFn =
     (let st1 = with_handler st this
      in case processFn this st1 of
           (Threw e, st2) \<Rightarrow> (Rejected e, st2)
         | (Returned v, st2) \<Rightarrow>
             (Rejected (Str ''TRANSACTION_EXECUTION_NOT_RETURNING_A_PROMISE''), st2)
         | (ReturnedPromise p, st2) \<Rightarrow> (p, st2))"

text \<open>
  A call of an option callback: whether it failed (threw, or returned a future that
  rejects), and the state it leaves. \<^verbatim>\<open>rollback()\<close> is called with no argument.
\<close>

fun run_callback :: "callback_fn \<Rightarrow> state \<Rightarrow> bool \<times> state" where
  "run_callback CbReturns st = (False, st)"
| "run_callback (CbThrows e) st = (True, st)"
| "run_callback (CbRejects e) st = (True, st)"
| "run_callback (CbRollsBack ts f) st =
     run_callback f (fold (\<lambda>t s. snd (rollback s t Undefined)) ts st)"

text \<open>
  The innermost \<^verbatim>\<open>callback(result)\<close>: the user's \<^verbatim>\<open>onCommit\<close> is called inside a
  \<^verbatim>\<open>try\<close>, and a throw or a rejection of it is logged and goes no further.
\<close>

definition callback :: "state \<Rightarrow> nat \<Rightarrow> jsval \<Rightarrow> state" where
  "callback st this result =
     (let failed = LogError (display (objs st this) @
                     '' - irrecoverable failure as on Commit failed'');
          st1 = emit st (LogInfo (display (objs st this) @ '' - on commit.''))
      in case opt_onCommit (options (objs st1 this)) of
           None \<Rightarrow> emit st1 failed
         | Some f \<Rightarrow>
             (case run_callback f (emit st1 (OnCommitCalled this result)) of
                (failure, st2) \<Rightarrow> if failure then emit st2 failed else st2))"

fun run_closure :: "closure \<Rightarrow> state \<Rightarrow> state" where
  "run_closure (CommitCallback t result) st = callback st t result"

definition onCommit :: "state \<Rightarrow> nat \<Rightarrow> jsval \<Rightarrow> state" where
  "onCommit st this result =
     (case opt_onCommit (options (objs st this)) of
        None \<Rightarrow> st
      | Some f \<Rightarrow>
          (case parentTransaction (objs st this) of
             Some p \<Rightarrow>
               (let st1 = upd st p (\<lambda>t. t\<lparr>innerCommitStack :=
                            innerCommitStack t @ innerCommitStack (objs st this)\<rparr>)
                in upd st1 p (\<lambda>t. t\<lparr>innerCommitStack :=
                            innerCommitStack t @ [CommitCallback this result]\<rparr>))
           | None \<Rightarrow>
               callback (fold run_closure (innerCommitStack (objs st this)) st) this result))"

text \<open>
  \<^verbatim>\<open>processCommit(result)\<close>. The three checks throw, and so does a hook that throws:
  the call \<^verbatim>\<open>impl.processCommit(thisTransaction)\<close> is evaluated before
  \<^verbatim>\<open>Promise.resolve\<close> wraps it. \<^verbatim>\<open>onCommit\<close> is the \<^verbatim>\<open>then\<close> of the hook's future:
  for a hook that returned a value that is not a thenable it runs in the next microtask,
  before anything chained on the transaction's own promise, and is part of this step;
  for a hook whose future is fulfilled it runs later (\<open>commit_hook_fulfilled\<close>), and for
  one whose future rejects, never. \<^verbatim>\<open>_.remove(list, thisTransaction)\<close> takes out the
  entries that match this object, which are the entries that are this object.
\<close>

definition processCommit :: "state \<Rightarrow> nat \<Rightarrow> jsval \<Rightarrow> (jsval + jsval) \<times> state" where
  "processCommit st this result =
     (if list_ex (\<lambda>t. status (objs st t) = Running) (innerTransactions (objs st this)) then
        (Inl (JsError ''INNER_TRANSACTION_NOT_AWAITED''),
         emit st (LogError (display (objs st this) @
           '' - Transaction is committing before an inner transaction completed.'')))
      else if (case parentTransaction (objs st this) of
                 Some p \<Rightarrow> status (objs st p) \<noteq> Running
               | None \<Rightarrow> False) then
        (Inl (JsError ''INNER_TRANSACTION_NOT_AWAITED''),
         emit st (LogError (display (objs st this) @
           '' - Inner Transaction is committing after its parent transaction.'')))
      else if list_ex (\<lambda>t. status (objs st t) = Rolledback)
                (innerTransactions (objs st this)) then
        (Inl (JsError ''INNER_TRANSACTION_ROLLED_BACK''), st)
      else
        (let st1 = emit st (LogInfo (display (objs st this) @ '' - Commit.''));
             st2 = emit st1 (HookCalled this CommitHook)
         in case impl_processCommit (impl (objs st2 this)) of
              Throws e \<Rightarrow> (Inl (JsError e), st2)
            | h \<Rightarrow>
                (let st3 = upd st2 this (\<lambda>t. t\<lparr>status := Committed\<rparr>);
                     st4 = (case parentTransaction (objs st3 this) of
                              Some p \<Rightarrow> upd st3 p (\<lambda>t. t\<lparr>innerTransactions :=
                                          filter (\<lambda>c. c \<noteq> this) (innerTransactions t)\<rparr>)
                            | None \<Rightarrow> st3)
                 in (Inr result, if h = Returns then onCommit st4 this result else st4))))"

text \<open>
  The \<^verbatim>\<open>then\<close> callback of the commit hook's future, run on its own when that future
  is fulfilled after the commit step has returned.
\<close>

definition commit_hook_fulfilled :: "state \<Rightarrow> nat \<Rightarrow> jsval \<Rightarrow> state" where
  "commit_hook_fulfilled st this result = onCommit st this result"

definition onRollback :: "state \<Rightarrow> nat \<Rightarrow> state" where
  "onRollback st this =
     (case opt_onRollback (options (objs st this)) of
        None \<Rightarrow> st
      | Some f \<Rightarrow>
          (let st1 = emit st (LogInfo (display (objs st this) @ '' - on rollback.''));
               failed = LogError (display (objs st this) @
                          '' - irrecoverable failure as on rollback failed'')
           in case run_callback f (emit st1 (OnRollbackCalled this)) of
                (failure, st2) \<Rightarrow> if failure then emit st2 failed else st2))"

text \<open>
  \<^verbatim>\<open>processRollback(err)\<close> never returns normally; the pair is the value it throws
  and the state. Its first statement reads \<^verbatim>\<open>err.message\<close>, a \<^verbatim>\<open>TypeError\<close> when
  \<^verbatim>\<open>err\<close> is \<^verbatim>\<open>undefined\<close> or \<^verbatim>\<open>null\<close>. A rollback hook that throws leaves the
  function before \<^verbatim>\<open>thisTransaction.rollback(err)\<close>; \<^verbatim>\<open>onRollback\<close> is the
  \<^verbatim>\<open>then\<close> of the hook's future, part of this step when the hook returned a value
  that is not a thenable.
\<close>

definition processRollback :: "state \<Rightarrow> nat \<Rightarrow> jsval \<Rightarrow> jsval \<times> state" where
  "processRollback st this err =
     (if err = Undefined then (JsTypeError ''cannot read property message of undefined'', st)
      else if err = Null then (JsTypeError ''cannot read property message of null'', st)
      else
        (let st1 = emit st (LogWarn (display (objs st this) @ '' - Roll back.''));
             st2 = emit st1 (LogTrace (display (objs st this) @ '' - Roll back Error.''));
             st3 = emit st2 (HookCalled this RollbackHook)
         in case impl_processRollback (impl (objs st3 this)) of
              Throws e \<Rightarrow> (JsError e, st3)
            | h \<Rightarrow>
                (case rollback st3 this err of
                   (thrown, st4) \<Rightarrow>
                     (thrown, if h = Returns then onRollback st4 this else st4))))"

text \<open>
  The \<^verbatim>\<open>then\<close> callback of the rollback hook's future, run on its own when that future
  is fulfilled after the rollback step has thrown.
\<close>

definition rollback_hook_fulfilled :: "state \<Rightarrow> nat \<Rightarrow> state" where
  "rollback_hook_fulfilled st this = onRollback st this"

text \<open>
  \<^verbatim>\<open>processBegin().then(processExecution).then(processCommit).then(() => processResult)
  .catch(processRollback)\<close>
\<close>

definition execute :: "state \<Rightarrow> nat \<Rightarrow> process_fn \<Rightarrow> promise \<times> state" where
  "execute st this processFn =
     (case processBegin st this of
        (Rejected e, st1) \<Rightarrow>
          (case processRollback st1 this e of (thrown, st') \<Rightarrow> (Rejected thrown, st'))
      | (Resolved b, st1) \<Rightarrow>
          (case processExecution st1 this processFn of
             (Rejected e, st2) \<Rightarrow>
               (case processRollback st2 this e of (thrown, st') \<Rightarrow> (Rejected thrown, st'))
           | (Resolved v, st2) \<Rightarrow>
               (case processCommit st2 this v of
                  (Inl e, st3) \<Rightarrow>
                    (case processRollback st3 this e of
                       (thrown, st') \<Rightarrow> (Rejected thrown, st'))
                | (Inr r, st3) \<Rightarrow> (Resolved v, st3))))"

text \<open>
  The thenable of \<^verbatim>\<open>createTransaction\<close>: \<^verbatim>\<open>then\<close> and \<^verbatim>\<open>execute\<close> are the same
  function, \<^verbatim>\<open>transaction.execute(callback).finally(() => delete transactions[id])\<close>.
\<close>

definition thenable_execute :: "state \<Rightarrow> nat \<Rightarrow> process_fn \<Rightarrow> promise \<times> state" where
  "thenable_execute st this cb =
     (case execute st this cb of
        (p, st1) \<Rightarrow> (p, st1\<lparr>transactions := transactions st1 - {id' (objs st1 this)}\<rparr>))"

section \<open>The default class, the freshly loaded module and the processes of the test suite\<close>

text \<open>
  \<^verbatim>\<open>class DefaultTransactionImplementationClass extends Transaction\<close>: every hook is
  \<^verbatim>\<open>_.noop\<close>.
\<close>

definition noop_implementation :: impl_class where
  "noop_implementation =
     \<lparr>cls_name = ''DefaultTransactionImplementationClass'', cls_methods = [],
      cls_constructor_arguments = 3,
      cls_processBegin = Returns, cls_processCommit = Returns, cls_processRollback = Returns,
      cls_processInnerBegin = Returns, cls_processInnerCommit = Returns,
      cls_processInnerRollback = Returns\<rparr>"

text \<open>
  \<^verbatim>\<open>getCoreTransactionClass()\<close>: the base class \<^verbatim>\<open>Transaction\<close>. Instantiated as it
  is, its constructor receives the two arguments of \<^verbatim>\<open>new Impl(parentTransaction,
  innerOptions)\<close>; it holds no hooks, and the constructor never comes to read any.
\<close>

definition getCoreTransactionClass :: impl_class where
  "getCoreTransactionClass =
     noop_implementation\<lparr>cls_name := ''Transaction'', cls_constructor_arguments := 2\<rparr>"

text \<open>
  What \<open>objs\<close> holds at an id for which no constructor has run yet: no object. Its fields
  are there only because \<open>objs\<close> is total; the hooks of its \<open>impl\<close> throw.
\<close>

definition unallocated :: transaction where
  "unallocated =
     \<lparr>innerTransactions = [], innerCommitStack = [], status = Running,
      options = as_options Undefined, id' = 0, parentTransaction = None, level = 0,
      impl = \<lparr>impl_processBegin = Throws ''unallocated'',
              impl_processCommit = Throws ''unallocated'',
              impl_processRollback = Throws ''unallocated'', impl_parentTransaction = None\<rparr>,
      name = [], display = [], handler = None, cls = noop_implementation\<rparr>"

text \<open>The module as loaded: \<^verbatim>\<open>let transactionId = 1; const transactions = {};\<close>\<close>

definition initial_state :: state where
  "initial_state =
     \<lparr>transactionId = 1, transactions = {},
      DefaultTransactionImplementationClass = noop_implementation,
      objs = (\<lambda>i. unallocated), events = []\<rparr>"

text \<open>
  From \<^verbatim>\<open>test/core-transaction.spec.js\<close>: \<^verbatim>\<open>() => Promise.resolve()\<close> and
  \<^verbatim>\<open>() => Promise.reject('A PROCESS ERROR')\<close>.
\<close>

definition successfullProcess :: process_fn where
  "successfullProcess h st = (ReturnedPromise (Resolved Undefined), st)"

definition failedProcess :: process_fn where
  "failedProcess h st = (ReturnedPromise (Rejected (Str ''A PROCESS ERROR'')), st)"

text \<open>
  \<^verbatim>\<open>(transaction) => transaction.startInner(io).execute(f)\<close>. In this and the next
  processes an error thrown by \<^verbatim>\<open>startInner\<close> leaves the function.
\<close>

definition inner_returned :: "jsval \<Rightarrow> process_fn \<Rightarrow> process_fn" where
  "inner_returned io f h st =
     (case startInner st h io of
        (Inl e, st1) \<Rightarrow> (Threw e, st1)
      | (Inr i, st1) \<Rightarrow>
          (case thenable_execute st1 i f of (p, st2) \<Rightarrow> (ReturnedPromise p, st2)))"

text \<open>\<^verbatim>\<open>(transaction) => transaction.startInner(io).execute(f).catch((err) => err)\<close>\<close>

definition inner_caught :: "jsval \<Rightarrow> process_fn \<Rightarrow> process_fn" where
  "inner_caught io f h st =
     (case startInner st h io of
        (Inl e, st1) \<Rightarrow> (Threw e, st1)
      | (Inr i, st1) \<Rightarrow>
          (case thenable_execute st1 i f of
             (Resolved v, st2) \<Rightarrow> (ReturnedPromise (Resolved v), st2)
           | (Rejected e, st2) \<Rightarrow> (ReturnedPromise (Resolved e), st2)))"

text \<open>
  \<^verbatim>\<open>(transaction) => { transaction.startInner(io); return Promise.resolve(); }\<close>: the
  inner transaction exists and nothing has brought it to its commit or rollback when the
  outer future resolves.
\<close>

definition inner_not_awaited :: "jsval \<Rightarrow> process_fn" where
  "inner_not_awaited io h st =
     (case startInner st h io of
        (Inl e, st1) \<Rightarrow> (Threw e, st1)
      | (Inr i, st1) \<Rightarrow> (ReturnedPromise (Resolved Undefined), st1))"

text \<open>
  \<^verbatim>\<open>(transaction) => { transaction.startInner(io); }\<close>: the function starts an inner
  transaction, does not execute it, and returns nothing.
\<close>

definition inner_not_returned :: "jsval \<Rightarrow> process_fn" where
  "inner_not_returned io h st =
     (case startInner st h io of
        (Inl e, st1) \<Rightarrow> (Threw e, st1)
      | (Inr i, st1) \<Rightarrow> (Returned Undefined, st1))"

text \<open>
  \<^verbatim>\<open>(transaction) => { try { transaction.rollback(); } catch (e) {} return
  Promise.resolve(); }\<close>
\<close>

definition rollback_caught :: process_fn where
  "rollback_caught h st =
     (case rollback st h Undefined of
        (e, st1) \<Rightarrow> (ReturnedPromise (Resolved Undefined), st1))"

text \<open>One process after another, the second running once the first has resolved.\<close>

definition and_then :: "process_fn \<Rightarrow> process_fn \<Rightarrow> process_fn" where
  "and_then f g h st =
     (case f h st of
        (ReturnedPromise (Resolved v), st1) \<Rightarrow> g h st1
      | other \<Rightarrow> other)"

text \<open>\<^verbatim>\<open>startTransaction(opts).execute(f)\<close> on a given state.\<close>

definition run_transaction :: "state \<Rightarrow> jsval \<Rightarrow> process_fn \<Rightarrow> promise \<times> state" where
  "run_transaction st opts f =
     (case startTransaction st [opts] of
        (Inl e, st1) \<Rightarrow> (Rejected e, st1)
      | (Inr i, st1) \<Rightarrow> thenable_execute st1 i f)"

text \<open>An options object with the given \<^verbatim>\<open>onCommit\<close> and \<^verbatim>\<open>onRollback\<close>.\<close>

definition with_callbacks :: "callback_fn option \<Rightarrow> callback_fn option \<Rightarrow> jsval" where
  "with_callbacks c r =
     Obj \<lparr>opt_name = None, opt_onCommit = c, opt_onRollback = r,
          opt_implementationClass = None, opt_DefaultImplementationClass = None\<rparr>"

text \<open>The same with an \<^verbatim>\<open>implementationClass\<close> as well.\<close>

definition with_implementation ::
  "impl_class \<Rightarrow> callback_fn option \<Rightarrow> callback_fn option \<Rightarrow> jsval" where
  "with_implementation k c r =
     Obj \<lparr>opt_name = None, opt_onCommit = c, opt_onRollback = r,
          opt_implementationClass = Some k, opt_DefaultImplementationClass = None\<rparr>"

text \<open>The state after \<^verbatim>\<open>startTransaction(opts)\<close> on the freshly loaded module.\<close>

definition started :: "jsval \<Rightarrow> state" where
  "started opts = snd (startTransaction initial_state [opts])"

text \<open>
  That transaction after its begin step, and after its user code \<open>f\<close> has run and the
  promise it returned has settled.
\<close>

definition begun :: "jsval \<Rightarrow> state" where
  "begun opts = snd (processBegin (started opts) 1)"

definition executed :: "jsval \<Rightarrow> process_fn \<Rightarrow> state" where
  "executed opts f = snd (processExecution (begun opts) 1 f)"

text \<open>
  The calls of the user's \<^verbatim>\<open>onCommit\<close> and \<^verbatim>\<open>onRollback\<close> callbacks among the events
  of a state, oldest first.
\<close>

fun is_callback_call :: "event \<Rightarrow> bool" where
  "is_callback_call (OnCommitCalled t r) = True"
| "is_callback_call (OnRollbackCalled t) = True"
| "is_callback_call e = False"

definition callbacks_called :: "state \<Rightarrow> event list" where
  "callbacks_called st = filter is_callback_call (events st)"

text \<open>An implementation class with the given root commit and rollback hooks.\<close>

definition hooked_implementation :: "hook \<Rightarrow> hook \<Rightarrow> impl_class" where
  "hooked_implementation c r =
     noop_implementation\<lparr>cls_name := ''TransactionImplementation'',
       cls_processCommit := c, cls_processRollback := r\<rparr>"

section \<open>Basic facts\<close>

text \<open>
  The equations that evaluate the model on a concrete input. They are used with the
  weak congruence rules of \<open>if\<close>, \<open>let\<close> and \<open>case\<close>, so that a state is computed
  before the code that runs on it is unfolded. The names of the transactions are left as
  they are written.
\<close>

lemmas eval_defs =
  run_transaction_def started_def begun_def executed_def startTransaction_def
  defineTransaction_def arg_at_def registry_lookup_def createTransaction_def startInner_def
  assign_def Impl_of_def
  new_Transaction_def constructMainTransaction_def constructInnerTransaction_def upd_def
  emit_def initial_state_def thenable_execute_def execute_def processBegin_def
  processExecution_def with_handler_def new_TransactionHandler_def processCommit_def
  onCommit_def callback_def processRollback_def rollback_def onRollback_def
  successfullProcess_def failedProcess_def inner_returned_def inner_caught_def
  inner_not_awaited_def inner_not_returned_def rollback_caught_def and_then_def
  with_callbacks_def with_implementation_def callbacks_called_def

lemma noop_implementation_hooks [simp]:
  "cls_processBegin noop_implementation = Returns"
  "cls_processCommit noop_implementation = Returns"
  "cls_processRollback noop_implementation = Returns"
  "cls_processInnerBegin noop_implementation = Returns"
  "cls_processInnerCommit noop_implementation = Returns"
  "cls_processInnerRollback noop_implementation = Returns"
  "cls_methods noop_implementation = []"
  "cls_constructor_arguments noop_implementation = 3"
  by (simp_all add: noop_implementation_def)

lemma hooked_implementation_hooks [simp]:
  "cls_processBegin (hooked_implementation c r) = Returns"
  "cls_processCommit (hooked_implementation c r) = c"
  "cls_processRollback (hooked_implementation c r) = r"
  "cls_processInnerBegin (hooked_implementation c r) = Returns"
  "cls_processInnerCommit (hooked_implementation c r) = Returns"
  "cls_processInnerRollback (hooked_implementation c r) = Returns"
  "cls_methods (hooked_implementation c r) = []"
  "cls_constructor_arguments (hooked_implementation c r) = 3"
  by (simp_all add: hooked_implementation_def noop_implementation_def)

lemma getCoreTransactionClass_arguments [simp]:
  "cls_constructor_arguments getCoreTransactionClass = 2"
  by (simp add: getCoreTransactionClass_def)

lemma objs_emit [simp]: "objs (emit st e) = objs st"
  by (simp add: emit_def)

lemma events_emit [simp]: "events (emit st e) = events st @ [e]"
  by (simp add: emit_def)

lemma objs_upd [simp]: "objs (upd st i f) = (objs st)(i := f (objs st i))"
  by (simp add: upd_def)

lemma events_upd [simp]: "events (upd st i f) = events st"
  by (simp add: upd_def)

lemma registry_upd [simp]: "transactions (upd st i f) = transactions st"
  by (simp add: upd_def)

lemma registry_emit [simp]: "transactions (emit st e) = transactions st"
  by (simp add: emit_def)

lemma transactionId_upd [simp]: "transactionId (upd st i f) = transactionId st"
  by (simp add: upd_def)

lemma default_class_upd [simp]:
  "DefaultTransactionImplementationClass (upd st i f) =
     DefaultTransactionImplementationClass st"
  by (simp add: upd_def)

text \<open>What the constructor leaves, for a root and for an inner transaction.\<close>

lemma new_Transaction_throws:
  "cls_constructor_arguments c \<noteq> 3 \<Longrightarrow>
     new_Transaction st parent c opts =
       (Inl (JsError ''Missing constructor parameters in your transaction implementation''),
        st)"
  by (simp add: new_Transaction_def)

lemma new_Transaction_root:
  assumes "cls_constructor_arguments c = 3"
  shows "\<exists>st'. new_Transaction st None c opts = (Inr (transactionId st), st') \<and>
     transactionId st' = transactionId st + 1 \<and> transactions st' = transactions st \<and>
     events st' = events st \<and>
     DefaultTransactionImplementationClass st' = DefaultTransactionImplementationClass st \<and>
     (\<forall>t. t \<noteq> transactionId st \<longrightarrow> objs st' t = objs st t) \<and>
     objs st' (transactionId st) =
       \<lparr>innerTransactions = [], innerCommitStack = [], status = Running,
        options = opts, id' = transactionId st, parentTransaction = None, level = 0,
        impl = \<lparr>impl_processBegin = cls_processBegin c,
                impl_processCommit = cls_processCommit c,
                impl_processRollback = cls_processRollback c,
                impl_parentTransaction = None\<rparr>,
        name = name_or (opt_name opts) ''id'' @ '' #'' @ string_of_nat (transactionId st),
        display = formatName (name_or (opt_name opts) ''id'' @ '' #'' @
                    string_of_nat (transactionId st)),
        handler = None, cls = c\<rparr>"
  using assms
  by (cases "objs st (transactionId st)")
     (simp add: new_Transaction_def constructMainTransaction_def upd_def Let_def)

lemma new_Transaction_inner:
  assumes "cls_constructor_arguments c = 3"
  shows "\<exists>st'. new_Transaction st (Some p) c opts = (Inr (transactionId st), st') \<and>
     parentTransaction (objs st' (transactionId st)) = Some p \<and>
     status (objs st' (transactionId st)) = Running \<and> cls (objs st' (transactionId st)) = c \<and>
     transactions st' = transactions st \<and> options (objs st' (transactionId st)) = opts \<and>
     id' (objs st' (transactionId st)) = transactionId st \<and>
     impl (objs st' (transactionId st)) =
       \<lparr>impl_processBegin = cls_processInnerBegin c, impl_processCommit = cls_processInnerCommit c,
        impl_processRollback = cls_processInnerRollback c, impl_parentTransaction = Some p\<rparr>"
  using assms
  by (simp add: new_Transaction_def constructInnerTransaction_def Let_def)

lemma createTransaction_throws:
  "cls_constructor_arguments (Impl_of st opts) \<noteq> 3 \<Longrightarrow>
     createTransaction st parent opts =
       (Inl (JsError ''Missing constructor parameters in your transaction implementation''),
        st)"
  by (simp add: createTransaction_def new_Transaction_throws)

lemma createTransaction_root:
  assumes "cls_constructor_arguments (Impl_of st opts) = 3"
  shows "\<exists>st'. createTransaction st None opts = (Inr (transactionId st), st') \<and>
     transactionId st' = transactionId st + 1 \<and>
     transactions st' = insert (transactionId st) (transactions st) \<and>
     events st' = events st \<and>
     DefaultTransactionImplementationClass st' = DefaultTransactionImplementationClass st \<and>
     (\<forall>t. t \<noteq> transactionId st \<longrightarrow> objs st' t = objs st t) \<and>
     objs st' (transactionId st) =
       \<lparr>innerTransactions = [], innerCommitStack = [], status = Running,
        options = opts, id' = transactionId st, parentTransaction = None, level = 0,
        impl = \<lparr>impl_processBegin = cls_processBegin (Impl_of st opts),
                impl_processCommit = cls_processCommit (Impl_of st opts),
                impl_processRollback = cls_processRollback (Impl_of st opts),
                impl_parentTransaction = None\<rparr>,
        name = name_or (opt_name opts) ''id'' @ '' #'' @ string_of_nat (transactionId st),
        display = formatName (name_or (opt_name opts) ''id'' @ '' #'' @
                    string_of_nat (transactionId st)),
        handler = None, cls = Impl_of st opts\<rparr>"
proof -
  obtain st1 where n: "new_Transaction st None (Impl_of st opts) opts =
      (Inr (transactionId st), st1)"
    and rest: "transactionId st1 = transactionId st + 1" "transactions st1 = transactions st"
      "events st1 = events st"
      "DefaultTransactionImplementationClass st1 = DefaultTransactionImplementationClass st"
      "\<forall>t. t \<noteq> transactionId st \<longrightarrow> objs st1 t = objs st t"
      "objs st1 (transactionId st) =
       \<lparr>innerTransactions = [], innerCommitStack = [], status = Running,
        options = opts, id' = transactionId st, parentTransaction = None, level = 0,
        impl = \<lparr>impl_processBegin = cls_processBegin (Impl_of st opts),
                impl_processCommit = cls_processCommit (Impl_of st opts),
                impl_processRollback = cls_processRollback (Impl_of st opts),
                impl_parentTransaction = None\<rparr>,
        name = name_or (opt_name opts) ''id'' @ '' #'' @ string_of_nat (transactionId st),
        display = formatName (name_or (opt_name opts) ''id'' @ '' #'' @
                    string_of_nat (transactionId st)),
        handler = None, cls = Impl_of st opts\<rparr>"
    using new_Transaction_root [OF assms, of st opts] by blast
  have "createTransaction st None opts =
          (Inr (transactionId st),
           st1\<lparr>transactions := insert (transactionId st) (transactions st1)\<rparr>)"
    using n by (simp add: createTransaction_def)
  then show ?thesis
    using rest by simp
qed

text \<open>
  An inner transaction of a parent that was created earlier (its id is below the
  counter).
\<close>

lemma createTransaction_inner:
  assumes "cls_constructor_arguments (Impl_of st opts) = 3"
      and "p \<noteq> transactionId st"
  shows "\<exists>st'. createTransaction st (Some p) opts = (Inr (transactionId st), st') \<and>
         level (objs st' (transactionId st)) = level (objs st p) + 1 \<and>
         parentTransaction (objs st' (transactionId st)) = Some p \<and>
         innerTransactions (objs st' p) = innerTransactions (objs st p) @ [transactionId st] \<and>
         transactionId st \<in> transactions st'"
  using assms
  by (simp add: createTransaction_def new_Transaction_def constructInnerTransaction_def
        Let_def)

text \<open>
  The inner transaction that \<^verbatim>\<open>createTransaction\<close> makes: its class, its hooks and its
  options.
\<close>

lemma createTransaction_inner_class:
  assumes "cls_constructor_arguments (Impl_of st opts) = 3"
  shows "\<exists>st'. createTransaction st (Some p) opts = (Inr (transactionId st), st') \<and>
     parentTransaction (objs st' (transactionId st)) = Some p \<and>
     cls (objs st' (transactionId st)) = Impl_of st opts \<and>
     options (objs st' (transactionId st)) = opts \<and>
     impl (objs st' (transactionId st)) =
       \<lparr>impl_processBegin = cls_processInnerBegin (Impl_of st opts),
        impl_processCommit = cls_processInnerCommit (Impl_of st opts),
        impl_processRollback = cls_processInnerRollback (Impl_of st opts),
        impl_parentTransaction = Some p\<rparr>"
proof -
  obtain st1 where n: "new_Transaction st (Some p) (Impl_of st opts) opts =
      (Inr (transactionId st), st1)"
    and rest: "parentTransaction (objs st1 (transactionId st)) = Some p"
      "cls (objs st1 (transactionId st)) = Impl_of st opts"
      "options (objs st1 (transactionId st)) = opts"
      "impl (objs st1 (transactionId st)) =
       \<lparr>impl_processBegin = cls_processInnerBegin (Impl_of st opts),
        impl_processCommit = cls_processInnerCommit (Impl_of st opts),
        impl_processRollback = cls_processInnerRollback (Impl_of st opts),
        impl_parentTransaction = Some p\<rparr>"
    using new_Transaction_inner [OF assms, of st p opts] by blast
  have "createTransaction st (Some p) opts =
          (Inr (transactionId st),
           st1\<lparr>transactions := insert (transactionId st) (transactions st1)\<rparr>)"
    using n by (simp add: createTransaction_def)
  then show ?thesis
    using rest by simp
qed


lemma thenable_execute_unregisters:
  "thenable_execute st this cb = (p, st1) \<Longrightarrow> id' (objs st1 this) \<notin> transactions st1"
  by (auto simp: thenable_execute_def split: prod.splits)

text \<open>
  An option callback changes nothing but statuses, and those to rolledback only; it logs
  nothing itself.
\<close>

lemma rollbacks_frame:
  "events (fold (\<lambda>t s. snd (rollback s t e)) ts st) = events st \<and>
   (\<forall>x. innerTransactions (objs (fold (\<lambda>t s. snd (rollback s t e)) ts st) x) =
          innerTransactions (objs st x)) \<and>
   (\<forall>x. status (objs st x) = Rolledback \<longrightarrow>
          status (objs (fold (\<lambda>t s. snd (rollback s t e)) ts st) x) = Rolledback)"
proof (induction ts arbitrary: st)
  case Nil
  show ?case by simp
next
  case (Cons t ts)
  show ?case
    using Cons.IH [of "snd (rollback st t e)"]
    by (simp add: rollback_def Let_def)
qed

lemma run_callback_frame:
  "events (snd (run_callback f st)) = events st \<and>
   (\<forall>x. innerTransactions (objs (snd (run_callback f st)) x) =
          innerTransactions (objs st x)) \<and>
   (\<forall>x. status (objs st x) = Rolledback \<longrightarrow>
          status (objs (snd (run_callback f st)) x) = Rolledback)"
proof (induction f arbitrary: st)
  case CbReturns
  show ?case by simp
next
  case (CbThrows e)
  show ?case by simp
next
  case (CbRejects e)
  show ?case by simp
next
  case (CbRollsBack ts f)
  show ?case
    using CbRollsBack.IH [of "fold (\<lambda>t s. snd (rollback s t Undefined)) ts st"]
          rollbacks_frame [of Undefined ts st]
    by simp
qed

lemma callback_frame:
  "(\<forall>x. innerTransactions (objs (callback st t r) x) = innerTransactions (objs st x)) \<and>
   (\<forall>x. status (objs st x) = Rolledback \<longrightarrow> status (objs (callback st t r) x) = Rolledback)"
proof (cases "opt_onCommit (options (objs st t))")
  case None
  then show ?thesis by (simp add: callback_def Let_def)
next
  case (Some f)
  let ?s = "emit (emit st (LogInfo (display (objs st t) @ '' - on commit.'')))
              (OnCommitCalled t r)"
  show ?thesis
    using Some run_callback_frame [of f ?s]
    by (cases "run_callback f ?s") (simp add: callback_def Let_def)
qed

lemma fold_run_closure_frame:
  "(\<forall>x. innerTransactions (objs (fold run_closure cs st) x) = innerTransactions (objs st x)) \<and>
   (\<forall>x. status (objs st x) = Rolledback \<longrightarrow>
          status (objs (fold run_closure cs st) x) = Rolledback)"
proof (induction cs arbitrary: st)
  case Nil
  show ?case by simp
next
  case (Cons c cs)
  obtain t r where c: "c = CommitCallback t r"
    by (cases c)
  show ?case
    using Cons.IH [of "callback st t r"] callback_frame [of st t r]
    by (simp add: c)
qed

lemma innerTransactions_onCommit [simp]:
  "innerTransactions (objs (onCommit st this r) t) = innerTransactions (objs st t)"
proof (cases "opt_onCommit (options (objs st this))")
  case None
  then show ?thesis by (simp add: onCommit_def)
next
  case (Some f)
  show ?thesis
  proof (cases "parentTransaction (objs st this)")
    case None
    then show ?thesis
      using Some fold_run_closure_frame [of "innerCommitStack (objs st this)" st]
            callback_frame [of "fold run_closure (innerCommitStack (objs st this)) st" this r]
      by (simp add: onCommit_def)
  next
    case (Some p)
    then show ?thesis
      using \<open>opt_onCommit (options (objs st this)) = Some f\<close>
      by (simp add: onCommit_def Let_def)
  qed
qed

lemma status_onCommit_queued:
  "opt_onCommit (options (objs st this)) = None \<or> parentTransaction (objs st this) \<noteq> None \<Longrightarrow>
     status (objs (onCommit st this r) t) = status (objs st t)"
  by (auto simp: onCommit_def Let_def split: option.splits)

lemma onRollback_frame:
  "(\<forall>x. innerTransactions (objs (onRollback st this) x) = innerTransactions (objs st x)) \<and>
   (\<forall>x. status (objs st x) = Rolledback \<longrightarrow>
          status (objs (onRollback st this) x) = Rolledback) \<and>
   (\<forall>f. opt_onRollback (options (objs st this)) = Some f \<longrightarrow>
          OnRollbackCalled this \<in> set (events (onRollback st this)))"
proof (cases "opt_onRollback (options (objs st this))")
  case None
  then show ?thesis by (simp add: onRollback_def)
next
  case (Some f)
  let ?s = "emit (emit st (LogInfo (display (objs st this) @ '' - on rollback.'')))
              (OnRollbackCalled this)"
  show ?thesis
    using Some run_callback_frame [of f ?s]
    by (cases "run_callback f ?s") (simp add: onRollback_def Let_def)
qed

text \<open>The rollback path runs to its end unless the rollback hook throws.\<close>

lemma processRollback_completes:
  assumes "err \<noteq> Undefined" "err \<noteq> Null"
      and "\<forall>e. impl_processRollback (impl (objs st this)) \<noteq> Throws e"
  shows "\<exists>st'. processRollback st this err =
                 (if truthy err then err else JsError ''ROLL_BACK'', st') \<and>
               status (objs st' this) = Rolledback \<and>
               (\<forall>t. innerTransactions (objs st' t) = innerTransactions (objs st t))"
proof -
  let ?s3 = "emit (emit (emit st (LogWarn (display (objs st this) @ '' - Roll back.'')))
               (LogTrace (display (objs st this) @ '' - Roll back Error.'')))
               (HookCalled this RollbackHook)"
  let ?s4 = "upd ?s3 this (\<lambda>t. t\<lparr>status := Rolledback\<rparr>)"
  have s4: "status (objs ?s4 this) = Rolledback"
    "\<forall>t. innerTransactions (objs ?s4 t) = innerTransactions (objs st t)"
    by simp_all
  show ?thesis
    using assms s4 onRollback_frame [of ?s4 this]
    by (cases "impl_processRollback (impl (objs st this))")
       (simp_all add: processRollback_def rollback_def Let_def)
qed


lemma processCommit_Inl:
  "processCommit st this v = (Inl e, st') \<Longrightarrow>
     objs st' = objs st \<and> e \<noteq> Undefined \<and> e \<noteq> Null \<and> truthy e"
  by (auto simp: processCommit_def Let_def split: if_splits hook.splits)

text \<open>
  A commit step that succeeds: the transaction is no longer in its parent's list, and it
  is committed when the step has run no \<^verbatim>\<open>onCommit\<close> callback.
\<close>

lemma processCommit_Inr_state:
  assumes "processCommit st this v = (Inr r, st')"
  shows "r = v \<and>
         (\<exists>s4. status (objs s4 this) = Committed \<and>
            options (objs s4 this) = options (objs st this) \<and>
            parentTransaction (objs s4 this) = parentTransaction (objs st this) \<and>
            (\<forall>p. parentTransaction (objs st this) = Some p \<longrightarrow>
                   this \<notin> set (innerTransactions (objs s4 p))) \<and>
            st' = (if impl_processCommit (impl (objs st this)) = Returns
                   then onCommit s4 this v else s4))"
proof -
  let ?s3 = "upd (emit (emit st (LogInfo (display (objs st this) @ '' - Commit.'')))
                   (HookCalled this CommitHook)) this (\<lambda>t. t\<lparr>status := Committed\<rparr>)"
  let ?s4 = "case parentTransaction (objs st this) of
               Some p \<Rightarrow> upd ?s3 p (\<lambda>t. t\<lparr>innerTransactions :=
                           filter (\<lambda>c. c \<noteq> this) (innerTransactions t)\<rparr>)
             | None \<Rightarrow> ?s3"
  have res: "r = v \<and> st' = (if impl_processCommit (impl (objs st this)) = Returns
                            then onCommit ?s4 this v else ?s4)"
    using assms
    by (auto simp: processCommit_def Let_def split: if_splits hook.splits option.splits)
  have props: "status (objs ?s4 this) = Committed \<and>
      options (objs ?s4 this) = options (objs st this) \<and>
      parentTransaction (objs ?s4 this) = parentTransaction (objs st this) \<and>
      (\<forall>p. parentTransaction (objs st this) = Some p \<longrightarrow>
             this \<notin> set (innerTransactions (objs ?s4 p)))"
    by (cases "parentTransaction (objs st this)") auto
  show ?thesis
    using res props by blast
qed

lemma processCommit_Inr:
  assumes "processCommit st this v = (Inr r, st')"
  shows "r = v \<and>
         (\<forall>p. parentTransaction (objs st this) = Some p \<longrightarrow>
                this \<notin> set (innerTransactions (objs st' p))) \<and>
         (opt_onCommit (options (objs st this)) = None \<or>
          parentTransaction (objs st this) \<noteq> None \<or>
          impl_processCommit (impl (objs st this)) \<noteq> Returns \<longrightarrow>
            status (objs st' this) = Committed)"
proof -
  obtain s4 where r: "r = v"
    and s4: "status (objs s4 this) = Committed"
      "options (objs s4 this) = options (objs st this)"
      "parentTransaction (objs s4 this) = parentTransaction (objs st this)"
      "\<forall>p. parentTransaction (objs st this) = Some p \<longrightarrow>
             this \<notin> set (innerTransactions (objs s4 p))"
    and st': "st' = (if impl_processCommit (impl (objs st this)) = Returns
                     then onCommit s4 this v else s4)"
    using processCommit_Inr_state [OF assms] by blast
  have a: "\<forall>p. parentTransaction (objs st this) = Some p \<longrightarrow>
                this \<notin> set (innerTransactions (objs st' p))"
    using s4(4) st' by simp
  have b: "opt_onCommit (options (objs st this)) = None \<or>
          parentTransaction (objs st this) \<noteq> None \<or>
          impl_processCommit (impl (objs st this)) \<noteq> Returns \<longrightarrow>
            status (objs st' this) = Committed"
  proof (cases "impl_processCommit (impl (objs st this)) = Returns")
    case False
    then show ?thesis using st' s4(1) by simp
  next
    case True
    show ?thesis
    proof
      assume "opt_onCommit (options (objs st this)) = None \<or>
          parentTransaction (objs st this) \<noteq> None \<or>
          impl_processCommit (impl (objs st this)) \<noteq> Returns"
      then have "opt_onCommit (options (objs s4 this)) = None \<or>
          parentTransaction (objs s4 this) \<noteq> None"
        using True s4(2,3) by simp
      then have "status (objs (onCommit s4 this v) this) = status (objs s4 this)"
        by (rule status_onCommit_queued)
      then show "status (objs st' this) = Committed"
        using True st' s4(1) by simp
    qed
  qed
  show ?thesis
    using r a b by blast
qed

lemma processCommit_checks:
  "fst (processCommit st this v) =
     (if list_ex (\<lambda>t. status (objs st t) = Running) (innerTransactions (objs st this)) \<or>
         (\<exists>p. parentTransaction (objs st this) = Some p \<and> status (objs st p) \<noteq> Running)
      then Inl (JsError ''INNER_TRANSACTION_NOT_AWAITED'')
      else if list_ex (\<lambda>t. status (objs st t) = Rolledback) (innerTransactions (objs st this))
      then Inl (JsError ''INNER_TRANSACTION_ROLLED_BACK'')
      else (case impl_processCommit (impl (objs st this)) of
              Throws e \<Rightarrow> Inl (JsError e)
            | _ \<Rightarrow> Inr v))"
  by (auto simp: processCommit_def Let_def split: option.splits hook.splits)

lemma execute_commit_failed:
  assumes "processBegin st this = (Resolved b, st1)"
      and "processExecution st1 this processFn = (Resolved v, st2)"
      and "processCommit st2 this v = (Inl e, st3)"
  shows "execute st this processFn =
           (Rejected (fst (processRollback st3 this e)), snd (processRollback st3 this e))"
  using assms by (simp add: execute_def split: prod.splits)

text \<open>Evaluation of the begin step of the first transaction of the module.\<close>

lemma begin_of_started:
  "processBegin (started Undefined) 1 = (Resolved Undefined, begun Undefined)"
  by (simp add: eval_defs Let_def
           cong: if_weak_cong let_weak_cong prod.case_cong_weak option.case_cong_weak
                 sum.case_cong_weak)

text \<open>The module once its first transaction has been started.\<close>

lemma started_registry:
  "1 \<in> transactions (started Undefined) \<and> transactionId (started Undefined) = 2 \<and>
   level (objs (started Undefined) 1) = 0 \<and> innerTransactions (objs (started Undefined) 1) = [] \<and>
   status (objs (started Undefined) 1) = Running \<and>
   cls_constructor_arguments
     (Impl_of (started Undefined)
        (assign (Some (DefaultTransactionImplementationClass (started Undefined))) Undefined)) =
     3"
  by (simp add: eval_defs Let_def
           cong: if_weak_cong let_weak_cong prod.case_cong_weak option.case_cong_weak
                 sum.case_cong_weak)

section \<open>The commit pre-checks\<close>

text \<open>
  Claim C6. For every transaction whose begin step succeeded and whose user code
  returned a future that resolved, the commit step evaluates its pre-checks in this order,
  and the first that fails determines the error: (1) an entry of \<^verbatim>\<open>innerTransactions\<close>
  with status running: \<^verbatim>\<open>INNER_TRANSACTION_NOT_AWAITED\<close>; (2) else a parent whose status
  is not running: \<^verbatim>\<open>INNER_TRANSACTION_NOT_AWAITED\<close>; (3) else an entry of
  \<^verbatim>\<open>innerTransactions\<close> with status rolledback: \<^verbatim>\<open>INNER_TRANSACTION_ROLLED_BACK\<close>. Every
  failure of the commit step sends the transaction through the rollback path:
  \<^verbatim>\<open>execute\<close> rejects with what \<^verbatim>\<open>processRollback\<close> throws for that error, and, when
  the rollback hook does not throw, that is the error itself and the transaction ends
  rolled back.
\<close>

theorem C6_commit_prechecks_in_order:
  assumes "processBegin st this = (Resolved b, st1)"
      and "processExecution st1 this processFn = (Resolved v, st2)"
  shows "(list_ex (\<lambda>t. status (objs st2 t) = Running) (innerTransactions (objs st2 this)) \<longrightarrow>
            fst (processCommit st2 this v) = Inl (JsError ''INNER_TRANSACTION_NOT_AWAITED'')) \<and>
         (\<not> list_ex (\<lambda>t. status (objs st2 t) = Running) (innerTransactions (objs st2 this)) \<and>
          (\<exists>p. parentTransaction (objs st2 this) = Some p \<and> status (objs st2 p) \<noteq> Running) \<longrightarrow>
            fst (processCommit st2 this v) = Inl (JsError ''INNER_TRANSACTION_NOT_AWAITED'')) \<and>
         (\<not> list_ex (\<lambda>t. status (objs st2 t) = Running) (innerTransactions (objs st2 this)) \<and>
          \<not> (\<exists>p. parentTransaction (objs st2 this) = Some p \<and> status (objs st2 p) \<noteq> Running) \<and>
          list_ex (\<lambda>t. status (objs st2 t) = Rolledback) (innerTransactions (objs st2 this)) \<longrightarrow>
            fst (processCommit st2 this v) = Inl (JsError ''INNER_TRANSACTION_ROLLED_BACK'')) \<and>
         (\<forall>e. fst (processCommit st2 this v) = Inl e \<longrightarrow>
            execute st this processFn =
              (Rejected (fst (processRollback (snd (processCommit st2 this v)) this e)),
               snd (processRollback (snd (processCommit st2 this v)) this e))) \<and>
         (\<forall>e. fst (processCommit st2 this v) = Inl e \<and>
               (\<forall>m. impl_processRollback (impl (objs st2 this)) \<noteq> Throws m) \<longrightarrow>
            (\<exists>st'. execute st this processFn = (Rejected e, st') \<and>
                   status (objs st' this) = Rolledback))"
proof (intro conjI impI allI)
  assume "list_ex (\<lambda>t. status (objs st2 t) = Running) (innerTransactions (objs st2 this))"
  then show "fst (processCommit st2 this v) = Inl (JsError ''INNER_TRANSACTION_NOT_AWAITED'')"
    by (simp add: processCommit_checks)
next
  assume "\<not> list_ex (\<lambda>t. status (objs st2 t) = Running) (innerTransactions (objs st2 this)) \<and>
          (\<exists>p. parentTransaction (objs st2 this) = Some p \<and> status (objs st2 p) \<noteq> Running)"
  then show "fst (processCommit st2 this v) = Inl (JsError ''INNER_TRANSACTION_NOT_AWAITED'')"
    by (simp add: processCommit_checks)
next
  assume "\<not> list_ex (\<lambda>t. status (objs st2 t) = Running) (innerTransactions (objs st2 this)) \<and>
          \<not> (\<exists>p. parentTransaction (objs st2 this) = Some p \<and> status (objs st2 p) \<noteq> Running) \<and>
          list_ex (\<lambda>t. status (objs st2 t) = Rolledback) (innerTransactions (objs st2 this))"
  then show "fst (processCommit st2 this v) = Inl (JsError ''INNER_TRANSACTION_ROLLED_BACK'')"
    by (simp add: processCommit_checks)
next
  fix e
  assume "fst (processCommit st2 this v) = Inl e"
  then have "processCommit st2 this v = (Inl e, snd (processCommit st2 this v))"
    by (cases "processCommit st2 this v") simp
  then show "execute st this processFn =
               (Rejected (fst (processRollback (snd (processCommit st2 this v)) this e)),
                snd (processRollback (snd (processCommit st2 this v)) this e))"
    by (rule execute_commit_failed [OF assms])
next
  fix e
  assume h: "fst (processCommit st2 this v) = Inl e \<and>
             (\<forall>m. impl_processRollback (impl (objs st2 this)) \<noteq> Throws m)"
  let ?st3 = "snd (processCommit st2 this v)"
  from h have pc: "processCommit st2 this v = (Inl e, ?st3)"
    by (cases "processCommit st2 this v") simp
  have facts: "objs ?st3 = objs st2" "e \<noteq> Undefined" "e \<noteq> Null" "truthy e"
    using processCommit_Inl [OF pc] by simp_all
  have hook: "\<forall>m. impl_processRollback (impl (objs ?st3 this)) \<noteq> Throws m"
    using h facts(1) by simp
  obtain st' where "processRollback ?st3 this e = (e, st')"
    and "status (objs st' this) = Rolledback"
    using processRollback_completes [OF facts(2,3) hook] facts(4) by auto
  then show "\<exists>st'. execute st this processFn = (Rejected e, st') \<and>
                   status (objs st' this) = Rolledback"
    using execute_commit_failed [OF assms pc] by simp
qed

lemma not_awaited_facts:
  "fst (processExecution (begun Undefined) 1 (inner_not_awaited Undefined)) =
     Resolved Undefined \<and>
   list_ex (\<lambda>t. status (objs (executed Undefined (inner_not_awaited Undefined)) t) = Running)
     (innerTransactions (objs (executed Undefined (inner_not_awaited Undefined)) 1)) \<and>
   impl_processRollback (impl (objs (executed Undefined (inner_not_awaited Undefined)) 1)) =
     Returns"
  by (simp add: eval_defs Let_def
           cong: if_weak_cong let_weak_cong prod.case_cong_weak option.case_cong_weak
                 sum.case_cong_weak)

text \<open>
  The root transaction of the test ``should not commit the main transaction due to inner
  transaction has not completed and was not awaited''.
\<close>

theorem C6_commit_prechecks_in_order_witness:
  "fst (processCommit (executed Undefined (inner_not_awaited Undefined)) 1 Undefined) =
     Inl (JsError ''INNER_TRANSACTION_NOT_AWAITED'') \<and>
   (\<exists>st'. execute (started Undefined) 1 (inner_not_awaited Undefined) =
            (Rejected (JsError ''INNER_TRANSACTION_NOT_AWAITED''), st') \<and>
          status (objs st' 1) = Rolledback)"
proof -
  have ex: "processExecution (begun Undefined) 1 (inner_not_awaited Undefined) =
              (Resolved Undefined, executed Undefined (inner_not_awaited Undefined))"
    using not_awaited_facts
    by (cases "processExecution (begun Undefined) 1 (inner_not_awaited Undefined)")
       (simp add: executed_def)
  note c = C6_commit_prechecks_in_order [OF begin_of_started ex]
  have first:
    "fst (processCommit (executed Undefined (inner_not_awaited Undefined)) 1 Undefined) =
       Inl (JsError ''INNER_TRANSACTION_NOT_AWAITED'')"
    using c not_awaited_facts by blast
  have hook: "\<forall>m. impl_processRollback
      (impl (objs (executed Undefined (inner_not_awaited Undefined)) 1)) \<noteq> Throws m"
    using not_awaited_facts by simp
  show ?thesis
    using c first hook by blast
qed

section \<open>User code that returns no future\<close>





section \<open>A rolled-back child blocks the commit of its parent\<close>






section \<open>The status of a transaction\<close>





section \<open>Hooks that fail\<close>









section \<open>The requirement policies of \<^verbatim>\<open>defineTransaction\<close>\<close>

text \<open>
  Claim C8, as amended. For every call of \<^verbatim>\<open>defineTransaction\<close>: under \<^verbatim>\<open>'NEW'\<close> it
  throws \<^verbatim>\<open>PARENT_TRANSACTION_MAY_NOT_BE_PROVIDED\<close> when the second argument is a
  \<^verbatim>\<open>TransactionHandler\<close>; otherwise it instantiates the implementation class that the
  options select, and either the constructor throws (the base constructor did not receive
  its three arguments), that error leaves \<^verbatim>\<open>defineTransaction\<close> and nothing is created,
  or a root transaction is created: a new object under the next id, registered under that
  id, with no parent, level 0, status running, empty lists, the options that
  \<^verbatim>\<open>_.assign\<close> built, the root hooks of its class and the name and display made from
  its id, every other object being left as it was. Under \<^verbatim>\<open>'REUSE'\<close> it throws
  \<^verbatim>\<open>PARENT_TRANSACTION_NOT_PROVIDED\<close> when the second argument is absent or is not a
  \<^verbatim>\<open>TransactionHandler\<close>; for every other requirement than the three known ones it throws
  \<^verbatim>\<open>TRANSACTION_REQUIREMENT_UNKNOWN\<close>. A call that throws leaves the module's state as
  it was.
\<close>

theorem C8_defineTransaction_requirements:
  assumes "opts = assign (Some (DefaultTransactionImplementationClass st))
                    (if length args = 2 then arg_at args 1 else arg_at args 2)"
      and "c = Impl_of st opts"
      and "i = transactionId st"
  shows
  "(arg_at args 0 = Str ''NEW'' \<and> instanceof_TransactionHandler (arg_at args 1) \<longrightarrow>
      defineTransaction st args =
        (Inl (JsError ''PARENT_TRANSACTION_MAY_NOT_BE_PROVIDED''), st)) \<and>
   (arg_at args 0 = Str ''NEW'' \<and> \<not> instanceof_TransactionHandler (arg_at args 1) \<and>
    cls_constructor_arguments c \<noteq> 3 \<longrightarrow>
      defineTransaction st args = (Inl (JsError ''Missing constructor parameters in your transaction implementation''), st)) \<and>
   (arg_at args 0 = Str ''NEW'' \<and> \<not> instanceof_TransactionHandler (arg_at args 1) \<and>
    cls_constructor_arguments c = 3 \<longrightarrow>
      (\<exists>st'. defineTransaction st args = (Inr i, st') \<and>
         transactionId st' = i + 1 \<and> transactions st' = insert i (transactions st) \<and>
         (\<forall>t. t \<noteq> i \<longrightarrow> objs st' t = objs st t) \<and>
         objs st' i =
           \<lparr>innerTransactions = [], innerCommitStack = [], status = Running,
            options = opts, id' = i, parentTransaction = None, level = 0,
            impl = \<lparr>impl_processBegin = cls_processBegin c,
                    impl_processCommit = cls_processCommit c,
                    impl_processRollback = cls_processRollback c,
                    impl_parentTransaction = None\<rparr>,
            name = name_or (opt_name opts) ''id'' @ '' #'' @ string_of_nat i,
            display = formatName (name_or (opt_name opts) ''id'' @ '' #'' @ string_of_nat i),
            handler = None, cls = c\<rparr>)) \<and>
   (arg_at args 0 = Str ''REUSE'' \<and> \<not> instanceof_TransactionHandler (arg_at args 1) \<longrightarrow>
      defineTransaction st args = (Inl (JsError ''PARENT_TRANSACTION_NOT_PROVIDED''), st)) \<and>
   (arg_at args 0 \<notin> {Str ''NEW'', Str ''REUSE'', Str ''REUSE_OR_NEW''} \<longrightarrow>
      defineTransaction st args = (Inl (JsError ''TRANSACTION_REQUIREMENT_UNKNOWN''), st))"
proof (intro conjI impI)
  assume "arg_at args 0 = Str ''NEW'' \<and> instanceof_TransactionHandler (arg_at args 1)"
  then show "defineTransaction st args =
               (Inl (JsError ''PARENT_TRANSACTION_MAY_NOT_BE_PROVIDED''), st)"
    by (simp add: defineTransaction_def Let_def)
next
  assume h: "arg_at args 0 = Str ''NEW'' \<and> \<not> instanceof_TransactionHandler (arg_at args 1) \<and>
    cls_constructor_arguments c \<noteq> 3"
  then have "defineTransaction st args = createTransaction st None opts"
    using assms(1) by (simp add: defineTransaction_def Let_def)
  then show "defineTransaction st args = (Inl (JsError ''Missing constructor parameters in your transaction implementation''), st)"
    using h assms(2) createTransaction_throws [of st opts None] by simp
next
  assume h: "arg_at args 0 = Str ''NEW'' \<and> \<not> instanceof_TransactionHandler (arg_at args 1) \<and>
    cls_constructor_arguments c = 3"
  then have d: "defineTransaction st args = createTransaction st None opts"
    using assms(1) by (simp add: defineTransaction_def Let_def)
  have three: "cls_constructor_arguments (Impl_of st opts) = 3"
    using h assms(2) by simp
  show "\<exists>st'. defineTransaction st args = (Inr i, st') \<and>
         transactionId st' = i + 1 \<and> transactions st' = insert i (transactions st) \<and>
         (\<forall>t. t \<noteq> i \<longrightarrow> objs st' t = objs st t) \<and>
         objs st' i =
           \<lparr>innerTransactions = [], innerCommitStack = [], status = Running,
            options = opts, id' = i, parentTransaction = None, level = 0,
            impl = \<lparr>impl_processBegin = cls_processBegin c,
                    impl_processCommit = cls_processCommit c,
                    impl_processRollback = cls_processRollback c,
                    impl_parentTransaction = None\<rparr>,
            name = name_or (opt_name opts) ''id'' @ '' #'' @ string_of_nat i,
            display = formatName (name_or (opt_name opts) ''id'' @ '' #'' @ string_of_nat i),
            handler = None, cls = c\<rparr>"
    using createTransaction_root [OF three] d assms(2,3) by auto
next
  assume "arg_at args 0 = Str ''REUSE'' \<and> \<not> instanceof_TransactionHandler (arg_at args 1)"
  then show "defineTransaction st args =
               (Inl (JsError ''PARENT_TRANSACTION_NOT_PROVIDED''), st)"
    by (simp add: defineTransaction_def Let_def)
next
  assume "arg_at args 0 \<notin> {Str ''NEW'', Str ''REUSE'', Str ''REUSE_OR_NEW''}"
  then show "defineTransaction st args =
               (Inl (JsError ''TRANSACTION_REQUIREMENT_UNKNOWN''), st)"
    by (simp add: defineTransaction_def Let_def)
qed

lemma fresh_module_classes:
  "cls_constructor_arguments
     (Impl_of initial_state
        (assign (Some (DefaultTransactionImplementationClass initial_state)) Undefined)) = 3 \<and>
   cls_constructor_arguments
     (Impl_of initial_state
        (assign (Some (DefaultTransactionImplementationClass initial_state))
           (with_implementation getCoreTransactionClass None None))) = 2 \<and>
   transactionId initial_state = 1 \<and> transactions initial_state = {}"
  by (simp add: Impl_of_def assign_def initial_state_def with_implementation_def)

text \<open>
  The cases on the freshly loaded module; \<^verbatim>\<open>'USE'\<close> is the requirement the README
  lists, which the code does not know.
\<close>

theorem C8_defineTransaction_requirements_witness:
  "defineTransaction initial_state [Str ''NEW'', Handler 1, Undefined] =
     (Inl (JsError ''PARENT_TRANSACTION_MAY_NOT_BE_PROVIDED''), initial_state) \<and>
   defineTransaction initial_state
     [Str ''NEW'', Undefined, with_implementation getCoreTransactionClass None None] =
     (Inl (JsError ''Missing constructor parameters in your transaction implementation''), initial_state) \<and>
   (\<exists>st'. defineTransaction initial_state [Str ''NEW'', Undefined] = (Inr 1, st') \<and>
      transactionId st' = 2 \<and> transactions st' = {1} \<and>
      parentTransaction (objs st' 1) = None \<and> level (objs st' 1) = 0 \<and>
      status (objs st' 1) = Running \<and> innerTransactions (objs st' 1) = [] \<and>
      id' (objs st' 1) = 1) \<and>
   defineTransaction initial_state [Str ''REUSE''] =
     (Inl (JsError ''PARENT_TRANSACTION_NOT_PROVIDED''), initial_state) \<and>
   defineTransaction initial_state [Str ''USE'', Handler 1, Undefined] =
     (Inl (JsError ''TRANSACTION_REQUIREMENT_UNKNOWN''), initial_state)"
proof -
  have a: "defineTransaction initial_state [Str ''NEW'', Handler 1, Undefined] =
     (Inl (JsError ''PARENT_TRANSACTION_MAY_NOT_BE_PROVIDED''), initial_state)"
    using C8_defineTransaction_requirements
            [OF refl refl refl, of "[Str ''NEW'', Handler 1, Undefined]" initial_state]
    by (simp add: arg_at_def)
  have b: "defineTransaction initial_state
     [Str ''NEW'', Undefined, with_implementation getCoreTransactionClass None None] =
     (Inl (JsError ''Missing constructor parameters in your transaction implementation''), initial_state)"
    using C8_defineTransaction_requirements
            [OF refl refl refl,
             of "[Str ''NEW'', Undefined, with_implementation getCoreTransactionClass None None]"
                initial_state]
          fresh_module_classes
    by (simp add: arg_at_def)
  have c: "\<exists>st'. defineTransaction initial_state [Str ''NEW'', Undefined] = (Inr 1, st') \<and>
      transactionId st' = 2 \<and> transactions st' = {1} \<and>
      parentTransaction (objs st' 1) = None \<and> level (objs st' 1) = 0 \<and>
      status (objs st' 1) = Running \<and> innerTransactions (objs st' 1) = [] \<and>
      id' (objs st' 1) = 1"
    using C8_defineTransaction_requirements
            [OF refl refl refl, of "[Str ''NEW'', Undefined]" initial_state]
          fresh_module_classes
    by (auto simp: arg_at_def)
  have d: "defineTransaction initial_state [Str ''REUSE''] =
     (Inl (JsError ''PARENT_TRANSACTION_NOT_PROVIDED''), initial_state)"
    using C8_defineTransaction_requirements
            [OF refl refl refl, of "[Str ''REUSE'']" initial_state]
    by (simp add: arg_at_def)
  have e: "defineTransaction initial_state [Str ''USE'', Handler 1, Undefined] =
     (Inl (JsError ''TRANSACTION_REQUIREMENT_UNKNOWN''), initial_state)"
    using C8_defineTransaction_requirements
            [OF refl refl refl, of "[Str ''USE'', Handler 1, Undefined]" initial_state]
    by (simp add: arg_at_def)
  show ?thesis
    using a b c d e by blast
qed

text \<open>
  The claim as stated fails where the constructor of the implementation class throws:
  \<^verbatim>\<open>startTransaction({implementationClass: getCoreTransactionClass()})\<close>, which is
  \<^verbatim>\<open>defineTransaction('NEW', options)\<close> with no parent handle, throws and creates no
  transaction.
\<close>

theorem C8_defineTransaction_requirements_counterexample:
  "\<not> instanceof_TransactionHandler
       (arg_at [Str ''NEW'', with_implementation getCoreTransactionClass None None] 1) \<and>
   fst (defineTransaction initial_state
          [Str ''NEW'', with_implementation getCoreTransactionClass None None]) =
     Inl (JsError ''Missing constructor parameters in your transaction implementation'') \<and>
   transactions (snd (defineTransaction initial_state
          [Str ''NEW'', with_implementation getCoreTransactionClass None None])) = {} \<and>
   fst (startTransaction initial_state
          [with_implementation getCoreTransactionClass None None]) =
     Inl (JsError ''Missing constructor parameters in your transaction implementation'')"
  by (simp add: eval_defs Let_def
           cong: if_weak_cong let_weak_cong prod.case_cong_weak option.case_cong_weak
                 sum.case_cong_weak)

text \<open>
  Claim C9, as amended. Once the \<^verbatim>\<open>execute()\<close> of a transaction has settled, its id is
  no longer a key of the registry, and \<^verbatim>\<open>defineTransaction('REUSE', handle, options)\<close>
  with the handler of that transaction raises none of the errors of the requirement
  policies: the lookup yields no transaction, and the implementation class that the
  options select is instantiated with no parent. Either its constructor throws, and that
  error leaves \<^verbatim>\<open>defineTransaction\<close>, or a fresh root transaction is created, registered
  and returned: a new object under the next id with no parent, level 0, status running,
  the root hooks of its class and the name and display made from its id.
\<close>

theorem C9_REUSE_of_settled_transaction_creates_root:
  assumes "thenable_execute st0 this cb = (p, st)"
      and "opts' = assign (Some (DefaultTransactionImplementationClass st)) opts"
      and "c = Impl_of st opts'"
      and "i = transactionId st"
  shows
  "id' (objs st this) \<notin> transactions st \<and>
   registry_lookup st (Handler (id' (objs st this))) = None \<and>
   (cls_constructor_arguments c = 3 \<longrightarrow>
      (\<exists>st'. defineTransaction st [Str ''REUSE'', Handler (id' (objs st this)), opts] =
               (Inr i, st') \<and>
         transactionId st' = i + 1 \<and> transactions st' = insert i (transactions st) \<and>
         (\<forall>t. t \<noteq> i \<longrightarrow> objs st' t = objs st t) \<and>
         objs st' i =
           \<lparr>innerTransactions = [], innerCommitStack = [], status = Running,
            options = opts', id' = i, parentTransaction = None, level = 0,
            impl = \<lparr>impl_processBegin = cls_processBegin c,
                    impl_processCommit = cls_processCommit c,
                    impl_processRollback = cls_processRollback c,
                    impl_parentTransaction = None\<rparr>,
            name = name_or (opt_name opts') ''id'' @ '' #'' @ string_of_nat i,
            display = formatName (name_or (opt_name opts') ''id'' @ '' #'' @ string_of_nat i),
            handler = None, cls = c\<rparr>)) \<and>
   (cls_constructor_arguments c \<noteq> 3 \<longrightarrow>
      defineTransaction st [Str ''REUSE'', Handler (id' (objs st this)), opts] =
        (Inl (JsError ''Missing constructor parameters in your transaction implementation''), st))"
proof -
  have gone: "id' (objs st this) \<notin> transactions st"
    using assms(1) by (rule thenable_execute_unregisters)
  then have look: "registry_lookup st (Handler (id' (objs st this))) = None"
    by (simp add: registry_lookup_def)
  have d: "defineTransaction st [Str ''REUSE'', Handler (id' (objs st this)), opts] =
             createTransaction st None opts'"
    using look assms(2) by (simp add: defineTransaction_def Let_def arg_at_def)
  have ok: "cls_constructor_arguments c = 3 \<longrightarrow>
      (\<exists>st'. defineTransaction st [Str ''REUSE'', Handler (id' (objs st this)), opts] =
               (Inr i, st') \<and>
         transactionId st' = i + 1 \<and> transactions st' = insert i (transactions st) \<and>
         (\<forall>t. t \<noteq> i \<longrightarrow> objs st' t = objs st t) \<and>
         objs st' i =
           \<lparr>innerTransactions = [], innerCommitStack = [], status = Running,
            options = opts', id' = i, parentTransaction = None, level = 0,
            impl = \<lparr>impl_processBegin = cls_processBegin c,
                    impl_processCommit = cls_processCommit c,
                    impl_processRollback = cls_processRollback c,
                    impl_parentTransaction = None\<rparr>,
            name = name_or (opt_name opts') ''id'' @ '' #'' @ string_of_nat i,
            display = formatName (name_or (opt_name opts') ''id'' @ '' #'' @ string_of_nat i),
            handler = None, cls = c\<rparr>)"
  proof
    assume "cls_constructor_arguments c = 3"
    then have three: "cls_constructor_arguments (Impl_of st opts') = 3"
      using assms(3) by simp
    show "\<exists>st'. defineTransaction st [Str ''REUSE'', Handler (id' (objs st this)), opts] =
               (Inr i, st') \<and>
         transactionId st' = i + 1 \<and> transactions st' = insert i (transactions st) \<and>
         (\<forall>t. t \<noteq> i \<longrightarrow> objs st' t = objs st t) \<and>
         objs st' i =
           \<lparr>innerTransactions = [], innerCommitStack = [], status = Running,
            options = opts', id' = i, parentTransaction = None, level = 0,
            impl = \<lparr>impl_processBegin = cls_processBegin c,
                    impl_processCommit = cls_processCommit c,
                    impl_processRollback = cls_processRollback c,
                    impl_parentTransaction = None\<rparr>,
            name = name_or (opt_name opts') ''id'' @ '' #'' @ string_of_nat i,
            display = formatName (name_or (opt_name opts') ''id'' @ '' #'' @ string_of_nat i),
            handler = None, cls = c\<rparr>"
      using createTransaction_root [OF three] d assms(3,4) by auto
  qed
  have ko: "cls_constructor_arguments c \<noteq> 3 \<longrightarrow>
      defineTransaction st [Str ''REUSE'', Handler (id' (objs st this)), opts] =
        (Inl (JsError ''Missing constructor parameters in your transaction implementation''), st)"
    using d assms(3) createTransaction_throws [of st opts' None] by simp
  show ?thesis
    using gone look ok ko by blast
qed

lemma run_transaction_root_settled:
  "thenable_execute (started Undefined) 1 successfullProcess =
     run_transaction initial_state Undefined successfullProcess \<and>
   fst (run_transaction initial_state Undefined successfullProcess) = Resolved Undefined \<and>
   id' (objs (snd (run_transaction initial_state Undefined successfullProcess)) 1) = 1 \<and>
   map_option h_id
     (handler (objs (snd (run_transaction initial_state Undefined successfullProcess)) 1)) =
     Some 1 \<and>
   transactions (snd (run_transaction initial_state Undefined successfullProcess)) = {} \<and>
   transactionId (snd (run_transaction initial_state Undefined successfullProcess)) = 2 \<and>
   cls_constructor_arguments
     (Impl_of (snd (run_transaction initial_state Undefined successfullProcess))
        (assign (Some (DefaultTransactionImplementationClass
                   (snd (run_transaction initial_state Undefined successfullProcess))))
           Undefined)) = 3"
  by (simp add: eval_defs Let_def
           cong: if_weak_cong let_weak_cong prod.case_cong_weak option.case_cong_weak
                 sum.case_cong_weak)

text \<open>
  The first transaction of the module has run and committed; its handler is then passed
  with \<^verbatim>\<open>'REUSE'\<close>.
\<close>

theorem C9_REUSE_of_settled_transaction_creates_root_witness:
  "1 \<notin> transactions (snd (run_transaction initial_state Undefined successfullProcess)) \<and>
   (\<exists>st'. defineTransaction (snd (run_transaction initial_state Undefined successfullProcess))
             [Str ''REUSE'', Handler 1, Undefined] = (Inr 2, st') \<and>
      transactions st' = {2} \<and>
      parentTransaction (objs st' 2) = None \<and> level (objs st' 2) = 0 \<and>
      status (objs st' 2) = Running)"
proof -
  let ?r = "run_transaction initial_state Undefined successfullProcess"
  have "thenable_execute (started Undefined) 1 successfullProcess = ?r"
    using run_transaction_root_settled by blast
  then have t: "thenable_execute (started Undefined) 1 successfullProcess = (fst ?r, snd ?r)"
    by simp
  show ?thesis
    using C9_REUSE_of_settled_transaction_creates_root [OF t refl refl refl, of Undefined]
          run_transaction_root_settled
    by auto
qed

text \<open>
  The claim as stated fails where the constructor of the implementation class throws: the
  first transaction of the module has run and committed, and
  \<^verbatim>\<open>defineTransaction('REUSE', handler, {implementationClass: getCoreTransactionClass()})\<close>
  with its handler raises an error and creates nothing.
\<close>

theorem C9_REUSE_of_settled_transaction_creates_root_counterexample:
  "fst (run_transaction initial_state Undefined successfullProcess) = Resolved Undefined \<and>
   map_option h_id
     (handler (objs (snd (run_transaction initial_state Undefined successfullProcess)) 1)) =
     Some 1 \<and>
   fst (defineTransaction (snd (run_transaction initial_state Undefined successfullProcess))
          [Str ''REUSE'', Handler 1, with_implementation getCoreTransactionClass None None]) =
     Inl (JsError ''Missing constructor parameters in your transaction implementation'') \<and>
   transactions (snd (defineTransaction
          (snd (run_transaction initial_state Undefined successfullProcess))
          [Str ''REUSE'', Handler 1, with_implementation getCoreTransactionClass None None])) =
     {}"
  by (simp add: eval_defs Let_def
           cong: if_weak_cong let_weak_cong prod.case_cong_weak option.case_cong_weak
                 sum.case_cong_weak)

section \<open>\<^verbatim>\<open>reUseOrCreateTransaction\<close> and \<^verbatim>\<open>'REUSE_OR_NEW'\<close>\<close>

text \<open>
  Claim C1 says that \<^verbatim>\<open>reUseOrCreateTransaction(parentHandle, options)\<close> behaves as
  \<^verbatim>\<open>defineTransaction('REUSE_OR_NEW', parentHandle, options)\<close> and that, with a valid
  parent handle, this creates an inner transaction of that parent. The code does neither:
  every call of \<^verbatim>\<open>reUseOrCreateTransaction\<close> throws a \<^verbatim>\<open>ReferenceError\<close> and leaves the
  module's state as it was, and \<^verbatim>\<open>defineTransaction('REUSE_OR_NEW', handle, options)\<close>
  instantiates the implementation class with no parent whatever the handle is, registered
  or not: it creates a root transaction and leaves the transaction of the handle as it
  was, or the constructor of the class throws.
\<close>

theorem C1_reUseOrCreateTransaction_throws:
  "reUseOrCreateTransaction st [parentHandle, opts] =
     (Inl (JsReferenceError ''parentTransaction is not defined''), st) \<and>
   (cls_constructor_arguments
      (Impl_of st (assign (Some (DefaultTransactionImplementationClass st)) opts)) = 3 \<longrightarrow>
      (\<exists>st'. defineTransaction st [Str ''REUSE_OR_NEW'', Handler i, opts] =
               (Inr (transactionId st), st') \<and>
         parentTransaction (objs st' (transactionId st)) = None \<and>
         level (objs st' (transactionId st)) = 0 \<and>
         (i \<noteq> transactionId st \<longrightarrow> objs st' i = objs st i))) \<and>
   (cls_constructor_arguments
      (Impl_of st (assign (Some (DefaultTransactionImplementationClass st)) opts)) \<noteq> 3 \<longrightarrow>
      defineTransaction st [Str ''REUSE_OR_NEW'', Handler i, opts] =
        (Inl (JsError ''Missing constructor parameters in your transaction implementation''), st))"
proof (intro conjI impI)
  show "reUseOrCreateTransaction st [parentHandle, opts] =
          (Inl (JsReferenceError ''parentTransaction is not defined''), st)"
    by (simp add: reUseOrCreateTransaction_def resolve_identifier_def module_scope_def)
next
  assume three: "cls_constructor_arguments
      (Impl_of st (assign (Some (DefaultTransactionImplementationClass st)) opts)) = 3"
  have d: "defineTransaction st [Str ''REUSE_OR_NEW'', Handler i, opts] =
     createTransaction st None (assign (Some (DefaultTransactionImplementationClass st)) opts)"
    by (simp add: defineTransaction_def Let_def arg_at_def)
  show "\<exists>st'. defineTransaction st [Str ''REUSE_OR_NEW'', Handler i, opts] =
               (Inr (transactionId st), st') \<and>
         parentTransaction (objs st' (transactionId st)) = None \<and>
         level (objs st' (transactionId st)) = 0 \<and>
         (i \<noteq> transactionId st \<longrightarrow> objs st' i = objs st i)"
    using createTransaction_root [OF three] d by auto
next
  assume ko: "cls_constructor_arguments
      (Impl_of st (assign (Some (DefaultTransactionImplementationClass st)) opts)) \<noteq> 3"
  have d: "defineTransaction st [Str ''REUSE_OR_NEW'', Handler i, opts] =
     createTransaction st None (assign (Some (DefaultTransactionImplementationClass st)) opts)"
    by (simp add: defineTransaction_def Let_def arg_at_def)
  show "defineTransaction st [Str ''REUSE_OR_NEW'', Handler i, opts] =
        (Inl (JsError ''Missing constructor parameters in your transaction implementation''), st)"
    using d createTransaction_throws [OF ko, of None] by simp
qed

text \<open>
  The first transaction of the module is registered and running; with its handler,
  \<^verbatim>\<open>'REUSE_OR_NEW'\<close> creates a second root, and the first has no inner transaction.
\<close>

theorem C1_reUseOrCreateTransaction_throws_witness:
  "1 \<in> transactions (started Undefined) \<and> status (objs (started Undefined) 1) = Running \<and>
   (\<exists>st'. defineTransaction (started Undefined) [Str ''REUSE_OR_NEW'', Handler 1, Undefined] =
            (Inr 2, st') \<and>
      parentTransaction (objs st' 2) = None \<and> level (objs st' 2) = 0 \<and>
      innerTransactions (objs st' 1) = [])"
  using C1_reUseOrCreateTransaction_throws [of "started Undefined" Undefined Undefined 1]
        started_registry
  by auto

section \<open>Deferred \<^verbatim>\<open>onCommit\<close> callbacks\<close>

text \<open>
  Claim C2 says that in a chain of nested transactions that all commit, the
  \<^verbatim>\<open>onCommit\<close> of every inner transaction is invoked when the root commits, whether or
  not the ancestors have an \<^verbatim>\<open>onCommit\<close> of their own. The code runs the deferred
  callbacks only from the \<^verbatim>\<open>onCommit\<close> step of a transaction that has an \<^verbatim>\<open>onCommit\<close>
  option: under a root without one the inner callback stays in the root's
  \<^verbatim>\<open>innerCommitStack\<close> and is never called, and an intermediate transaction without one
  never hands the callbacks of its descendants on. Where every member has an
  \<^verbatim>\<open>onCommit\<close>, they are called innermost first when the root commits.
\<close>

theorem C2_deferred_onCommit_dropped:
  "fst (run_transaction initial_state (with_callbacks None None)
          (inner_returned (with_callbacks (Some CbReturns) None) successfullProcess)) =
     Resolved Undefined \<and>
   map (\<lambda>t. status (objs (snd (run_transaction initial_state (with_callbacks None None)
          (inner_returned (with_callbacks (Some CbReturns) None) successfullProcess))) t))
       [1, 2] = [Committed, Committed] \<and>
   innerCommitStack (objs (snd (run_transaction initial_state (with_callbacks None None)
          (inner_returned (with_callbacks (Some CbReturns) None) successfullProcess))) 1) =
     [CommitCallback 2 Undefined] \<and>
   callbacks_called (snd (run_transaction initial_state (with_callbacks None None)
          (inner_returned (with_callbacks (Some CbReturns) None) successfullProcess))) = [] \<and>
   map (\<lambda>t. status (objs (snd (run_transaction initial_state
          (with_callbacks (Some CbReturns) None)
          (inner_returned (with_callbacks None None)
             (inner_returned (with_callbacks (Some CbReturns) None) successfullProcess)))) t))
       [1, 2, 3] = [Committed, Committed, Committed] \<and>
   callbacks_called (snd (run_transaction initial_state
          (with_callbacks (Some CbReturns) None)
          (inner_returned (with_callbacks None None)
             (inner_returned (with_callbacks (Some CbReturns) None) successfullProcess)))) =
     [OnCommitCalled 1 Undefined] \<and>
   callbacks_called (snd (run_transaction initial_state
          (with_callbacks (Some CbReturns) None)
          (inner_returned (with_callbacks (Some CbReturns) None)
             (inner_returned (with_callbacks (Some CbReturns) None) successfullProcess)))) =
     [OnCommitCalled 3 Undefined, OnCommitCalled 2 Undefined, OnCommitCalled 1 Undefined]"
  by (simp add: eval_defs Let_def
           cong: if_weak_cong let_weak_cong prod.case_cong_weak option.case_cong_weak
                 sum.case_cong_weak)

section \<open>The class of an inner transaction\<close>

text \<open>
  Claim C10, as amended. \<^verbatim>\<open>handler.startInner(innerOptions)\<close> with \<^verbatim>\<open>innerOptions\<close>
  that have neither an \<^verbatim>\<open>implementationClass\<close> nor a \<^verbatim>\<open>DefaultImplementationClass\<close> key
  of their own instantiates the inner transaction from the \<^verbatim>\<open>DefaultImplementationClass\<close>
  carried in the parent's options (or, when that is not set, from the module's default
  class), whatever \<^verbatim>\<open>implementationClass\<close> the parent was created with. Unless the
  constructor of that class throws, the inner transaction is an instance of that class,
  runs its inner hooks and has the parent as its parent; its options are those of
  \<^verbatim>\<open>innerOptions\<close> (name, \<^verbatim>\<open>onCommit\<close>, \<^verbatim>\<open>onRollback\<close>, no \<^verbatim>\<open>implementationClass\<close>)
  together with the parent's \<^verbatim>\<open>DefaultImplementationClass\<close>, the one option that
  comes from the parent.
\<close>

theorem C10_startInner_class:
  assumes "opt_implementationClass (as_options innerOptions) = None"
      and "opt_DefaultImplementationClass (as_options innerOptions) = None"
      and "d = (case opt_DefaultImplementationClass (options (objs st this)) of
                  None \<Rightarrow> None
                | Some own \<Rightarrow> own)"
      and "c = (case d of
                  Some k \<Rightarrow> k
                | None \<Rightarrow> DefaultTransactionImplementationClass st)"
      and "i = transactionId st"
  shows
  "(cls_constructor_arguments c = 3 \<longrightarrow>
      (\<exists>st'. startInner st this innerOptions = (Inr i, st') \<and>
         cls (objs st' i) = c \<and>
         impl (objs st' i) =
           \<lparr>impl_processBegin = cls_processInnerBegin c,
            impl_processCommit = cls_processInnerCommit c,
            impl_processRollback = cls_processInnerRollback c,
            impl_parentTransaction = Some this\<rparr> \<and>
         parentTransaction (objs st' i) = Some this \<and>
         opt_name (options (objs st' i)) = opt_name (as_options innerOptions) \<and>
         opt_onCommit (options (objs st' i)) = opt_onCommit (as_options innerOptions) \<and>
         opt_onRollback (options (objs st' i)) = opt_onRollback (as_options innerOptions) \<and>
         opt_implementationClass (options (objs st' i)) = None \<and>
         opt_DefaultImplementationClass (options (objs st' i)) = Some d)) \<and>
   (cls_constructor_arguments c \<noteq> 3 \<longrightarrow>
      startInner st this innerOptions = (Inl (JsError ''Missing constructor parameters in your transaction implementation''), st))"
proof -
  have s: "startInner st this innerOptions =
             createTransaction st (Some this) (assign d innerOptions)"
    using assms(3) by (simp add: startInner_def)
  have a: "assign d innerOptions =
             (as_options innerOptions)\<lparr>opt_DefaultImplementationClass := Some d\<rparr>"
    using assms(2) by (simp add: assign_def)
  have k: "Impl_of st (assign d innerOptions) = c"
    using assms(1,4) a by (cases d) (simp_all add: Impl_of_def)
  have ok: "cls_constructor_arguments c = 3 \<longrightarrow>
      (\<exists>st'. startInner st this innerOptions = (Inr i, st') \<and>
         cls (objs st' i) = c \<and>
         impl (objs st' i) =
           \<lparr>impl_processBegin = cls_processInnerBegin c,
            impl_processCommit = cls_processInnerCommit c,
            impl_processRollback = cls_processInnerRollback c,
            impl_parentTransaction = Some this\<rparr> \<and>
         parentTransaction (objs st' i) = Some this \<and>
         opt_name (options (objs st' i)) = opt_name (as_options innerOptions) \<and>
         opt_onCommit (options (objs st' i)) = opt_onCommit (as_options innerOptions) \<and>
         opt_onRollback (options (objs st' i)) = opt_onRollback (as_options innerOptions) \<and>
         opt_implementationClass (options (objs st' i)) = None \<and>
         opt_DefaultImplementationClass (options (objs st' i)) = Some d)"
  proof
    assume "cls_constructor_arguments c = 3"
    then have three: "cls_constructor_arguments (Impl_of st (assign d innerOptions)) = 3"
      using k by simp
    obtain st' where c: "createTransaction st (Some this) (assign d innerOptions) =
        (Inr (transactionId st), st')"
      and rest: "parentTransaction (objs st' (transactionId st)) = Some this"
        "cls (objs st' (transactionId st)) = Impl_of st (assign d innerOptions)"
        "options (objs st' (transactionId st)) = assign d innerOptions"
        "impl (objs st' (transactionId st)) =
           \<lparr>impl_processBegin = cls_processInnerBegin (Impl_of st (assign d innerOptions)),
            impl_processCommit = cls_processInnerCommit (Impl_of st (assign d innerOptions)),
            impl_processRollback =
              cls_processInnerRollback (Impl_of st (assign d innerOptions)),
            impl_parentTransaction = Some this\<rparr>"
      using createTransaction_inner_class [OF three, of this] by blast
    have "startInner st this innerOptions = (Inr i, st')"
      using s c assms(5) by simp
    then show "\<exists>st'. startInner st this innerOptions = (Inr i, st') \<and>
         cls (objs st' i) = c \<and>
         impl (objs st' i) =
           \<lparr>impl_processBegin = cls_processInnerBegin c,
            impl_processCommit = cls_processInnerCommit c,
            impl_processRollback = cls_processInnerRollback c,
            impl_parentTransaction = Some this\<rparr> \<and>
         parentTransaction (objs st' i) = Some this \<and>
         opt_name (options (objs st' i)) = opt_name (as_options innerOptions) \<and>
         opt_onCommit (options (objs st' i)) = opt_onCommit (as_options innerOptions) \<and>
         opt_onRollback (options (objs st' i)) = opt_onRollback (as_options innerOptions) \<and>
         opt_implementationClass (options (objs st' i)) = None \<and>
         opt_DefaultImplementationClass (options (objs st' i)) = Some d"
      using rest k a assms(1,5) by simp
  qed
  have ko: "cls_constructor_arguments c \<noteq> 3 \<longrightarrow>
      startInner st this innerOptions = (Inl (JsError ''Missing constructor parameters in your transaction implementation''), st)"
    using s k createTransaction_throws [of st "assign d innerOptions" "Some this"] by simp
  show ?thesis
    using ok ko by blast
qed

lemma started_with_implementation:
  "opt_implementationClass (options (objs (started (with_implementation
      (hooked_implementation (Throws ''E'') (Throws ''E'')) None None)) 1)) =
     Some (hooked_implementation (Throws ''E'') (Throws ''E'')) \<and>
   opt_DefaultImplementationClass (options (objs (started (with_implementation
      (hooked_implementation (Throws ''E'') (Throws ''E'')) None None)) 1)) =
     Some (Some noop_implementation) \<and>
   transactionId (started (with_implementation
      (hooked_implementation (Throws ''E'') (Throws ''E'')) None None)) = 2 \<and>
   opt_implementationClass (as_options (with_callbacks (Some CbReturns) None)) = None \<and>
   opt_DefaultImplementationClass (as_options (with_callbacks (Some CbReturns) None)) = None \<and>
   opt_onCommit (as_options (with_callbacks (Some CbReturns) None)) = Some CbReturns"
  by (simp add: eval_defs Let_def
           cong: if_weak_cong let_weak_cong prod.case_cong_weak option.case_cong_weak
                 sum.case_cong_weak)

text \<open>
  The parent was started with a class of its own as \<^verbatim>\<open>implementationClass\<close>; the inner
  transaction started from its handler with an \<^verbatim>\<open>onCommit\<close> option and no class is an
  instance of the default class, and has that \<^verbatim>\<open>onCommit\<close>.
\<close>

theorem C10_startInner_class_witness:
  "opt_implementationClass (options (objs (started (with_implementation
      (hooked_implementation (Throws ''E'') (Throws ''E'')) None None)) 1)) =
     Some (hooked_implementation (Throws ''E'') (Throws ''E'')) \<and>
   (\<exists>st'. startInner (started (with_implementation
              (hooked_implementation (Throws ''E'') (Throws ''E'')) None None)) 1
            (with_callbacks (Some CbReturns) None) = (Inr 2, st') \<and>
      cls (objs st' 2) = noop_implementation \<and>
      parentTransaction (objs st' 2) = Some 1 \<and>
      opt_onCommit (options (objs st' 2)) = Some CbReturns \<and>
      opt_implementationClass (options (objs st' 2)) = None \<and>
      opt_DefaultImplementationClass (options (objs st' 2)) = Some (Some noop_implementation))"
proof -
  let ?P = "started (with_implementation
              (hooked_implementation (Throws ''E'') (Throws ''E'')) None None)"
  let ?io = "with_callbacks (Some CbReturns) None"
  have a: "opt_implementationClass (as_options ?io) = None"
    and b: "opt_DefaultImplementationClass (as_options ?io) = None"
    using started_with_implementation by simp_all
  show ?thesis
    using C10_startInner_class [OF a b refl refl refl, of ?P 1] started_with_implementation
    by auto
qed

text \<open>
  The claim as stated fails where \<^verbatim>\<open>innerOptions\<close> has a \<^verbatim>\<open>DefaultImplementationClass\<close>
  key of its own: \<^verbatim>\<open>_.assign\<close> writes it over the parent's, and the inner transaction,
  whose \<^verbatim>\<open>innerOptions\<close> set no \<^verbatim>\<open>implementationClass\<close>, is an instance of that class
  and not of the \<^verbatim>\<open>DefaultImplementationClass\<close> carried in the parent's options.
\<close>

theorem C10_startInner_class_counterexample:
  "opt_implementationClass (options (objs (started (with_implementation
      (hooked_implementation Returns Returns) None None)) 1)) =
     Some (hooked_implementation Returns Returns) \<and>
   opt_DefaultImplementationClass (options (objs (started (with_implementation
      (hooked_implementation Returns Returns) None None)) 1)) =
     Some (Some noop_implementation) \<and>
   opt_implementationClass (as_options (Obj ((as_options Undefined)
      \<lparr>opt_DefaultImplementationClass :=
         Some (Some (hooked_implementation (Throws ''E'') (Throws ''E'')))\<rparr>))) = None \<and>
   fst (startInner (started (with_implementation
      (hooked_implementation Returns Returns) None None)) 1
      (Obj ((as_options Undefined)
      \<lparr>opt_DefaultImplementationClass :=
         Some (Some (hooked_implementation (Throws ''E'') (Throws ''E'')))\<rparr>))) = Inr 2 \<and>
   cls (objs (snd (startInner (started (with_implementation
      (hooked_implementation Returns Returns) None None)) 1
      (Obj ((as_options Undefined)
      \<lparr>opt_DefaultImplementationClass :=
         Some (Some (hooked_implementation (Throws ''E'') (Throws ''E'')))\<rparr>)))) 2) =
     hooked_implementation (Throws ''E'') (Throws ''E'') \<and>
   cls_processCommit (hooked_implementation (Throws ''E'') (Throws ''E'')) \<noteq>
     cls_processCommit noop_implementation"
  by (simp add: eval_defs Let_def
           cong: if_weak_cong let_weak_cong prod.case_cong_weak option.case_cong_weak
                 sum.case_cong_weak)

section \<open>Further properties of the state machine\<close>

text \<open>
  Property X1. \<^verbatim>\<open>defineTransaction('REUSE', handle, options)\<close> with the handler of a
  registered transaction (one created earlier: its id is below the counter) and a class
  whose constructor does not throw creates an inner transaction of it: its parent is that
  transaction, its level is the parent's level plus one, it is appended to the parent's
  \<^verbatim>\<open>innerTransactions\<close>, and it is registered.
\<close>

theorem X1_REUSE_creates_inner:
  assumes "p \<in> transactions st" and "p < transactionId st"
      and "cls_constructor_arguments
             (Impl_of st (assign (Some (DefaultTransactionImplementationClass st)) opts)) = 3"
  shows "\<exists>st'. defineTransaction st [Str ''REUSE'', Handler p, opts] =
                 (Inr (transactionId st), st') \<and>
           parentTransaction (objs st' (transactionId st)) = Some p \<and>
           level (objs st' (transactionId st)) = level (objs st p) + 1 \<and>
           innerTransactions (objs st' p) = innerTransactions (objs st p) @ [transactionId st] \<and>
           transactionId st \<in> transactions st'"
proof -
  have d: "defineTransaction st [Str ''REUSE'', Handler p, opts] =
             createTransaction st (Some p)
               (assign (Some (DefaultTransactionImplementationClass st)) opts)"
    using assms(1) by (simp add: defineTransaction_def Let_def arg_at_def registry_lookup_def)
  have "p \<noteq> transactionId st"
    using assms(2) by simp
  from createTransaction_inner [OF assms(3) this] show ?thesis
    unfolding d by blast
qed

theorem X1_REUSE_creates_inner_witness:
  "\<exists>st'. defineTransaction (started Undefined) [Str ''REUSE'', Handler 1, Undefined] =
           (Inr 2, st') \<and>
     parentTransaction (objs st' 2) = Some 1 \<and> level (objs st' 2) = 1 \<and>
     innerTransactions (objs st' 1) = [2] \<and> 2 \<in> transactions st'"
  using X1_REUSE_creates_inner [of 1 "started Undefined" Undefined] started_registry
  by simp

text \<open>
  Property X2. A transaction whose begin hook returns, whose user code returns a future
  that resolves with \<open>v\<close>, whose commit pre-checks pass and whose commit hook does not
  throw: \<^verbatim>\<open>execute\<close> resolves with \<open>v\<close>, and the transaction is then committed when the
  commit step has run no \<^verbatim>\<open>onCommit\<close> callback (the transaction has no \<^verbatim>\<open>onCommit\<close>
  option, or it has a parent).
\<close>

theorem X2_successful_execute:
  assumes "processBegin st this = (Resolved b, st1)"
      and "processExecution st1 this processFn = (Resolved v, st2)"
      and "\<not> list_ex (\<lambda>t. status (objs st2 t) = Running) (innerTransactions (objs st2 this))"
      and "\<not> (\<exists>p. parentTransaction (objs st2 this) = Some p \<and> status (objs st2 p) \<noteq> Running)"
      and "\<not> list_ex (\<lambda>t. status (objs st2 t) = Rolledback) (innerTransactions (objs st2 this))"
      and "\<forall>m. impl_processCommit (impl (objs st2 this)) \<noteq> Throws m"
  shows "\<exists>st'. execute st this processFn = (Resolved v, st') \<and>
               (opt_onCommit (options (objs st2 this)) = None \<or>
                parentTransaction (objs st2 this) \<noteq> None \<longrightarrow>
                  status (objs st' this) = Committed)"
proof -
  have "fst (processCommit st2 this v) = Inr v"
    using assms(3-6)
    by (cases "impl_processCommit (impl (objs st2 this))") (simp_all add: processCommit_checks)
  then obtain st3 where pc: "processCommit st2 this v = (Inr v, st3)"
    by (cases "processCommit st2 this v") simp
  have "execute st this processFn = (Resolved v, st3)"
    using assms(1,2) pc by (simp add: execute_def)
  then show ?thesis
    using processCommit_Inr [OF pc] by blast
qed

lemma root_success_facts:
  "fst (processExecution (begun Undefined) 1 successfullProcess) = Resolved Undefined \<and>
   innerTransactions (objs (executed Undefined successfullProcess) 1) = [] \<and>
   parentTransaction (objs (executed Undefined successfullProcess) 1) = None \<and>
   impl_processCommit (impl (objs (executed Undefined successfullProcess) 1)) = Returns \<and>
   opt_onCommit (options (objs (executed Undefined successfullProcess) 1)) = None"
  by (simp add: eval_defs Let_def
           cong: if_weak_cong let_weak_cong prod.case_cong_weak option.case_cong_weak
                 sum.case_cong_weak)

theorem X2_successful_execute_witness:
  "\<exists>st'. execute (started Undefined) 1 successfullProcess = (Resolved Undefined, st') \<and>
         status (objs st' 1) = Committed"
proof -
  have ex: "processExecution (begun Undefined) 1 successfullProcess =
              (Resolved Undefined, executed Undefined successfullProcess)"
    using root_success_facts
    by (cases "processExecution (begun Undefined) 1 successfullProcess")
       (simp add: executed_def)
  show ?thesis
    using X2_successful_execute [OF begin_of_started ex] root_success_facts
    by simp
qed

text \<open>
  Property X3. When the error that reaches \<^verbatim>\<open>processRollback\<close> is \<^verbatim>\<open>undefined\<close> or
  \<^verbatim>\<open>null\<close> (user code rejected with no reason), its first statement throws a
  \<^verbatim>\<open>TypeError\<close>: the rollback hook is not called and no status is changed, so a
  transaction whose user code rejects with \<^verbatim>\<open>undefined\<close> is still running after
  \<^verbatim>\<open>execute\<close> has rejected.
\<close>

theorem X3_rollback_without_reason:
  "processRollback st this Undefined =
     (JsTypeError ''cannot read property message of undefined'', st) \<and>
   processRollback st this Null =
     (JsTypeError ''cannot read property message of null'', st) \<and>
   status (objs (snd (run_transaction initial_state Undefined
                        (\<lambda>h s. (ReturnedPromise (Rejected Undefined), s)))) 1) = Running"
proof (intro conjI)
  show "processRollback st this Undefined =
          (JsTypeError ''cannot read property message of undefined'', st)"
    by (simp add: processRollback_def)
  show "processRollback st this Null =
          (JsTypeError ''cannot read property message of null'', st)"
    by (simp add: processRollback_def)
  show "status (objs (snd (run_transaction initial_state Undefined
                        (\<lambda>h s. (ReturnedPromise (Rejected Undefined), s)))) 1) = Running"
    by (simp add: eval_defs Let_def
             cong: if_weak_cong let_weak_cong prod.case_cong_weak option.case_cong_weak
                   sum.case_cong_weak)
qed

end
